theory Spec2Isabelle
  imports Complex_Main "HOL-Library.Word" "HOL-Library.AList"
begin

section \<open>Engine strings and containers\<close>

text \<open>
  \<^verbatim>\<open>FString\<close> is modelled as \<^typ>\<open>string\<close>. The engine compares two \<^verbatim>\<open>FString\<close>s
  (\<^verbatim>\<open>operator==\<close>, \<^verbatim>\<open>operator!=\<close>, also against a \<^verbatim>\<open>TEXT\<close> literal) ignoring letter
  case, and the default key functions of \<^verbatim>\<open>TMap<FString, V>\<close> hash and compare keys the
  same way. The model therefore compares case-folded strings, and a \<^verbatim>\<open>TMap\<close> keyed by
  \<^verbatim>\<open>FString\<close> is a map on case-folded keys.
\<close>

definition ToLower :: "char \<Rightarrow> char" where
  "ToLower c =
     (case map_of (zip ''ABCDEFGHIJKLMNOPQRSTUVWXYZ'' ''abcdefghijklmnopqrstuvwxyz'') c of
        Some l \<Rightarrow> l
      | None \<Rightarrow> c)"

definition FString_fold :: "string \<Rightarrow> string" where
  "FString_fold s = map ToLower s"

definition FString_eq :: "string \<Rightarrow> string \<Rightarrow> bool" where
  "FString_eq a b = (FString_fold a = FString_fold b)"

text \<open>A \<^verbatim>\<open>TMap<FString, V>\<close> whose iteration order no modelled code depends on.\<close>

type_synonym 'v TMap = "string \<rightharpoonup> 'v"

definition TMap_Find :: "'v TMap \<Rightarrow> string \<Rightarrow> 'v option" where
  "TMap_Find m k = m (FString_fold k)"

definition TMap_Emplace :: "'v TMap \<Rightarrow> string \<Rightarrow> 'v \<Rightarrow> 'v TMap" where
  "TMap_Emplace m k v = m(FString_fold k \<mapsto> v)"

definition TMap_Remove :: "'v TMap \<Rightarrow> string \<Rightarrow> 'v TMap" where
  "TMap_Remove m k = m(FString_fold k := None)"

text \<open>A \<^verbatim>\<open>TMap<FString, V>\<close> that the code iterates: an association list in insertion
  order, on case-folded keys. (After a removal the engine may reuse the freed slot, so
  its iteration order can differ from insertion order; only the choice among channels of
  equal usage depends on that.)\<close>

type_synonym 'v TMapL = "(string \<times> 'v) list"

definition TMapL_Find :: "'v TMapL \<Rightarrow> string \<Rightarrow> 'v option" where
  "TMapL_Find al k = map_of al (FString_fold k)"

definition TMapL_Emplace :: "'v TMapL \<Rightarrow> string \<Rightarrow> 'v \<Rightarrow> 'v TMapL" where
  "TMapL_Emplace al k v = AList.update (FString_fold k) v al"

definition TMapL_Remove :: "'v TMapL \<Rightarrow> string \<Rightarrow> 'v TMapL" where
  "TMapL_Remove al k = AList.delete (FString_fold k) al"

text \<open>\<^verbatim>\<open>TArray<FString>::AddUnique\<close> and \<^verbatim>\<open>TArray<FString>::Remove\<close>.\<close>

definition AddUnique :: "string list \<Rightarrow> string \<Rightarrow> string list" where
  "AddUnique xs x = (if list_ex (\<lambda>y. FString_eq y x) xs then xs else xs @ [x])"

definition RemoveAll_eq :: "string list \<Rightarrow> string \<Rightarrow> string list" where
  "RemoveAll_eq xs x = filter (\<lambda>y. \<not> FString_eq y x) xs"

text \<open>\<^verbatim>\<open>FString::FindLastChar\<close>: the index of the last occurrence of a character.\<close>

fun FindLastChar :: "char \<Rightarrow> string \<Rightarrow> nat option" where
  "FindLastChar c [] = None"
| "FindLastChar c (x # xs) =
     (case FindLastChar c xs of
        Some i \<Rightarrow> Some (Suc i)
      | None \<Rightarrow> if x = c then Some 0 else None)"

section \<open>Channels: verbosity, rate limit, configuration and runtime state\<close>

text \<open>
  Source: \<^verbatim>\<open>Public/Channels/ULMChannel.h\<close> and \<^verbatim>\<open>Private/Channels/ULMChannel.cpp\<close>.

  Conventions of the whole development.
  \<^item> The C++ \<^verbatim>\<open>float\<close> and \<^verbatim>\<open>double\<close> values (token counts, clock readings in
    seconds, percentages) are modelled as exact rationals (\<^typ>\<open>rat\<close>); a cast from a
    floating value to an integer type is \<^term>\<open>floor\<close> (the values cast are never
    negative where the model uses it). Rounding of IEEE arithmetic is not modelled.
  \<^item> \<^verbatim>\<open>int32\<close> configuration values (burst capacity, maximum entries, file index)
    are \<^typ>\<open>int\<close>; the thread-safe counters are machine words, so that increments wrap.
  \<^item> Locks (\<^verbatim>\<open>FScopeLock\<close>, \<^verbatim>\<open>FRWLock\<close>) are not modelled: every operation is
    taken as one atomic step on the state it is given.
  \<^item> The diagnostic statements \<^verbatim>\<open>UE_LOG\<close>, \<^verbatim>\<open>ULM_LOG\<close> and \<^verbatim>\<open>ULM_WARNING\<close> are
    not modelled. \<^verbatim>\<open>UE_LOG\<close> writes to the engine log only; \<^verbatim>\<open>ULM_LOG\<close> re-enters
    the ingestion path (token buckets, ingestion queue, queue counters) and never
    touches the per-channel entry store, the memory tracker or the file tracker.
\<close>

datatype EULMVerbosity = Message | Warning | Error | Critical

text \<open>The underlying \<^verbatim>\<open>uint8\<close> value of the enumerators; \<^verbatim>\<open><\<close> and
  \<^verbatim>\<open>FMath::Max\<close> on the enum compare these.\<close>

fun verbosity_value :: "EULMVerbosity \<Rightarrow> nat" where
  "verbosity_value Message = 0"
| "verbosity_value Warning = 1"
| "verbosity_value Error = 2"
| "verbosity_value Critical = 3"

definition verbosity_less :: "EULMVerbosity \<Rightarrow> EULMVerbosity \<Rightarrow> bool" where
  "verbosity_less a b = (verbosity_value a < verbosity_value b)"

text \<open>\<^verbatim>\<open>FMath::Max(A, B)\<close> is \<^verbatim>\<open>(B < A) ? A : B\<close>.\<close>

definition verbosity_max :: "EULMVerbosity \<Rightarrow> EULMVerbosity \<Rightarrow> EULMVerbosity" where
  "verbosity_max a b = (if verbosity_less b a then a else b)"

type_synonym FLinearColor = "rat \<times> rat \<times> rat \<times> rat"

definition FLinearColor_White :: FLinearColor where
  "FLinearColor_White = (1, 1, 1, 1)"

record FULMRateLimit =
  TokensPerSecond :: rat
  BurstCapacity :: int

definition FULMRateLimit_default :: FULMRateLimit where
  "FULMRateLimit_default = \<lparr>TokensPerSecond = 20, BurstCapacity = 20\<rparr>"


record FULMChannelConfig =
  bEnabled :: bool
  MinVerbosity :: EULMVerbosity
  DisplayColor :: FLinearColor
  RateLimit :: FULMRateLimit
  MaxLogEntries :: int
  bInheritFromParent :: bool

definition FULMChannelConfig_default :: FULMChannelConfig where
  "FULMChannelConfig_default =
     \<lparr>bEnabled = True, MinVerbosity = Message, DisplayColor = FLinearColor_White,
      RateLimit = FULMRateLimit_default, MaxLogEntries = 1000, bInheritFromParent = True\<rparr>"

record FULMChannelState =
  bEffectiveEnabled :: bool
  EffectiveMinVerbosity :: EULMVerbosity
  EffectiveColor :: FLinearColor
  EffectiveRateLimit :: FULMRateLimit
  EffectiveMaxEntries :: int
  CurrentTokens :: rat
  LastRefillTime :: rat
  ParentChannel :: string
  ChildChannels :: "string list"

definition FULMChannelState_default :: FULMChannelState where
  "FULMChannelState_default =
     \<lparr>bEffectiveEnabled = True, EffectiveMinVerbosity = Message,
      EffectiveColor = FLinearColor_White, EffectiveRateLimit = FULMRateLimit_default,
      EffectiveMaxEntries = 1000, CurrentTokens = 20, LastRefillTime = 0,
      ParentChannel = [], ChildChannels = []\<rparr>"

subsection \<open>Token bucket\<close>

text \<open>\<^verbatim>\<open>FULMChannelState::RefillTokens\<close>. A last-refill time of \<open>0.0\<close> is the mark of
  a bucket that was never used: the bucket is then filled to its burst capacity.\<close>

definition RefillTokens :: "rat \<Rightarrow> FULMChannelState \<Rightarrow> FULMChannelState" where
  "RefillTokens CurrentTime st =
     (if LastRefillTime st = 0
      then st\<lparr>LastRefillTime := CurrentTime,
              CurrentTokens := of_int (BurstCapacity (EffectiveRateLimit st))\<rparr>
      else
        let DeltaTime = CurrentTime - LastRefillTime st in
        if DeltaTime > 0
        then
          let TokensToAdd = DeltaTime * TokensPerSecond (EffectiveRateLimit st) in
          st\<lparr>CurrentTokens := min (CurrentTokens st + TokensToAdd)
                                   (of_int (BurstCapacity (EffectiveRateLimit st))),
              LastRefillTime := CurrentTime\<rparr>
        else st)"

text \<open>\<^verbatim>\<open>FULMChannelState::CanLog\<close>: the answer and the state after the call.\<close>

definition CanLog :: "EULMVerbosity \<Rightarrow> rat \<Rightarrow> FULMChannelState \<Rightarrow> bool \<times> FULMChannelState" where
  "CanLog Verbosity CurrentTime st =
     (if \<not> bEffectiveEnabled st \<or> verbosity_less Verbosity (EffectiveMinVerbosity st)
      then (False, st)
      else
        let st1 = RefillTokens CurrentTime st in
        if CurrentTokens st1 \<ge> 1
        then (True, st1\<lparr>CurrentTokens := CurrentTokens st1 - 1\<rparr>)
        else (False, st1))"


subsection \<open>Inheritance of effective settings\<close>

text \<open>\<^verbatim>\<open>FULMChannelState::UpdateEffectiveSettings\<close>; a null parent pointer is \<^const>\<open>None\<close>.\<close>

definition UpdateEffectiveSettings ::
  "FULMChannelConfig \<Rightarrow> FULMChannelState option \<Rightarrow> FULMChannelState \<Rightarrow> FULMChannelState" where
  "UpdateEffectiveSettings Config ParentState st =
     (case ParentState of
        Some parent \<Rightarrow>
          if bInheritFromParent Config
          then st\<lparr>bEffectiveEnabled := bEffectiveEnabled parent \<and> bEnabled Config,
                  EffectiveMinVerbosity :=
                    verbosity_max (EffectiveMinVerbosity parent) (MinVerbosity Config),
                  EffectiveColor :=
                    (if DisplayColor Config \<noteq> FLinearColor_White then DisplayColor Config
                     else EffectiveColor parent),
                  EffectiveRateLimit :=
                    (if TokensPerSecond (RateLimit Config) > 0 then RateLimit Config
                     else EffectiveRateLimit parent),
                  EffectiveMaxEntries := MaxLogEntries Config\<rparr>
          else st\<lparr>bEffectiveEnabled := bEnabled Config,
                  EffectiveMinVerbosity := MinVerbosity Config,
                  EffectiveColor := DisplayColor Config,
                  EffectiveRateLimit := RateLimit Config,
                  EffectiveMaxEntries := MaxLogEntries Config\<rparr>
      | None \<Rightarrow>
          st\<lparr>bEffectiveEnabled := bEnabled Config,
             EffectiveMinVerbosity := MinVerbosity Config,
             EffectiveColor := DisplayColor Config,
             EffectiveRateLimit := RateLimit Config,
             EffectiveMaxEntries := MaxLogEntries Config\<rparr>)"

section \<open>Channel registry\<close>

record FULMChannelRegistry =
  ChannelConfigs :: "FULMChannelConfig TMap"
  ChannelStates :: "FULMChannelState TMap"
  DefaultConfig :: FULMChannelConfig

text \<open>\<^verbatim>\<open>FULMChannelRegistry::ParseChannelHierarchy\<close>: parent path and local name.\<close>

definition ParseChannelHierarchy :: "string \<Rightarrow> string \<times> string" where
  "ParseChannelHierarchy ChannelName =
     (case FindLastChar (CHR ''.'') ChannelName of
        Some LastDotIndex \<Rightarrow> (take LastDotIndex ChannelName, drop (LastDotIndex + 1) ChannelName)
      | None \<Rightarrow> ([], ChannelName))"

text \<open>
  \<^verbatim>\<open>FULMChannelRegistry::RebuildEffectiveSettings\<close> recurses through the child lists of
  the stored states; nothing in its code bounds that recursion, so the model carries
  fuel: \<^const>\<open>None\<close> means the fuel ran out.
\<close>

fun RebuildEffectiveSettings :: "nat \<Rightarrow> string \<Rightarrow> FULMChannelRegistry \<Rightarrow> FULMChannelRegistry option" where
  "RebuildEffectiveSettings 0 ChannelName reg = None"
| "RebuildEffectiveSettings (Suc fuel) ChannelName reg =
     (case TMap_Find (ChannelStates reg) ChannelName of
        None \<Rightarrow> Some reg
      | Some State \<Rightarrow>
          (case TMap_Find (ChannelConfigs reg) ChannelName of
             None \<Rightarrow> Some reg
           | Some Config \<Rightarrow>
               let ParentState =
                     (if ParentChannel State \<noteq> []
                      then TMap_Find (ChannelStates reg) (ParentChannel State) else None);
                   State1 = UpdateEffectiveSettings Config ParentState State;
                   reg1 = reg\<lparr>ChannelStates := TMap_Emplace (ChannelStates reg) ChannelName State1\<rparr>
               in fold (\<lambda>ChildChannel r.
                          case r of None \<Rightarrow> None
                          | Some r1 \<Rightarrow> RebuildEffectiveSettings fuel ChildChannel r1)
                       (ChildChannels State1) (Some reg1)))"

text \<open>\<^verbatim>\<open>FULMChannelRegistry::UpdateChildChannels\<close>.\<close>

definition UpdateChildChannels :: "nat \<Rightarrow> string \<Rightarrow> FULMChannelRegistry \<Rightarrow> FULMChannelRegistry option" where
  "UpdateChildChannels fuel ParentChannelName reg =
     (case TMap_Find (ChannelStates reg) ParentChannelName of
        None \<Rightarrow> Some reg
      | Some ParentState \<Rightarrow>
          (case TMap_Find (ChannelConfigs reg) ParentChannelName of
             None \<Rightarrow> Some reg
           | Some ParentConfig \<Rightarrow>
               fold (\<lambda>ChildChannel r.
                       case r of None \<Rightarrow> None
                       | Some r1 \<Rightarrow> RebuildEffectiveSettings fuel ChildChannel r1)
                    (ChildChannels ParentState) (Some reg)))"

lemma FindLastChar_less: "FindLastChar c s = Some i \<Longrightarrow> i < length s"
  by (induction s arbitrary: i) (auto split: option.splits if_splits)

lemma ParseChannelHierarchy_parent_shorter:
  "ChannelName \<noteq> [] \<Longrightarrow> length (fst (ParseChannelHierarchy ChannelName)) < length ChannelName"
  by (auto simp: ParseChannelHierarchy_def split: option.splits dest: FindLastChar_less)

text \<open>
  \<^verbatim>\<open>FULMChannelRegistry::RegisterChannel\<close>: a missing parent is registered first with
  the default configuration (the parent path is strictly shorter, which is the
  termination argument); then the configuration is stored, a fresh state is built, linked
  to its parent, stored, and the children of the new state are rebuilt.
\<close>

function FULMChannelRegistry_RegisterChannel ::
  "nat \<Rightarrow> string \<Rightarrow> FULMChannelConfig \<Rightarrow> FULMChannelRegistry \<Rightarrow> FULMChannelRegistry option" where
  "FULMChannelRegistry_RegisterChannel fuel ChannelName Config reg =
     (if ChannelName = [] then Some reg
      else
        case (if fst (ParseChannelHierarchy ChannelName) \<noteq> []
                 \<and> TMap_Find (ChannelConfigs reg) (fst (ParseChannelHierarchy ChannelName)) = None
              then FULMChannelRegistry_RegisterChannel fuel
                     (fst (ParseChannelHierarchy ChannelName)) (DefaultConfig reg) reg
              else Some reg) of
          None \<Rightarrow> None
        | Some reg1 \<Rightarrow>
            let ParentName = fst (ParseChannelHierarchy ChannelName);
                reg2 = reg1\<lparr>ChannelConfigs := TMap_Emplace (ChannelConfigs reg1) ChannelName Config\<rparr>;
                NewState = FULMChannelState_default\<lparr>ParentChannel := ParentName\<rparr>;
                ParentState =
                  (if ParentName \<noteq> [] then TMap_Find (ChannelStates reg2) ParentName else None);
                NewState1 = UpdateEffectiveSettings Config ParentState NewState;
                reg3 =
                  (if ParentName \<noteq> []
                   then (case TMap_Find (ChannelStates reg2) ParentName of
                           None \<Rightarrow> reg2
                         | Some Parent \<Rightarrow>
                             reg2\<lparr>ChannelStates :=
                               TMap_Emplace (ChannelStates reg2) ParentName
                                 (Parent\<lparr>ChildChannels := AddUnique (ChildChannels Parent) ChannelName\<rparr>)\<rparr>)
                   else reg2);
                reg4 = reg3\<lparr>ChannelStates := TMap_Emplace (ChannelStates reg3) ChannelName NewState1\<rparr>
            in UpdateChildChannels fuel ChannelName reg4)"
  by pat_completeness auto
termination
  by (relation "measure (\<lambda>(fuel, ChannelName, Config, reg). length ChannelName)")
     (auto simp: ParseChannelHierarchy_parent_shorter)

declare FULMChannelRegistry_RegisterChannel.simps [simp del]

text \<open>The constructor registers the channel \<^verbatim>\<open>Default\<close> in an empty registry.\<close>

definition FULMChannelRegistry_new :: "nat \<Rightarrow> FULMChannelRegistry option" where
  "FULMChannelRegistry_new fuel =
     FULMChannelRegistry_RegisterChannel fuel ''Default'' FULMChannelConfig_default
       \<lparr>ChannelConfigs = Map.empty, ChannelStates = Map.empty,
        DefaultConfig = FULMChannelConfig_default\<rparr>"

definition FULMChannelRegistry_IsChannelRegistered :: "FULMChannelRegistry \<Rightarrow> string \<Rightarrow> bool" where
  "FULMChannelRegistry_IsChannelRegistered reg ChannelName =
     (TMap_Find (ChannelStates reg) ChannelName \<noteq> None)"

text \<open>\<^verbatim>\<open>FULMChannelRegistry::CanChannelLog\<close>; the clock reading
  \<^verbatim>\<open>FPlatformTime::Seconds()\<close> is an argument.\<close>

definition CanChannelLog ::
  "rat \<Rightarrow> string \<Rightarrow> EULMVerbosity \<Rightarrow> FULMChannelRegistry \<Rightarrow> bool \<times> FULMChannelRegistry" where
  "CanChannelLog CurrentTime ChannelName Verbosity reg =
     (case TMap_Find (ChannelStates reg) ChannelName of
        None \<Rightarrow> (False, reg)
      | Some State \<Rightarrow>
          let (r, State1) = CanLog Verbosity CurrentTime State
          in (r, reg\<lparr>ChannelStates := TMap_Emplace (ChannelStates reg) ChannelName State1\<rparr>))"

definition FULMChannelRegistry_UpdateChannelConfig ::
  "nat \<Rightarrow> string \<Rightarrow> FULMChannelConfig \<Rightarrow> FULMChannelRegistry \<Rightarrow> FULMChannelRegistry option" where
  "FULMChannelRegistry_UpdateChannelConfig fuel ChannelName Config reg =
     (if TMap_Find (ChannelConfigs reg) ChannelName \<noteq> None
      then RebuildEffectiveSettings fuel ChannelName
             (reg\<lparr>ChannelConfigs := TMap_Emplace (ChannelConfigs reg) ChannelName Config\<rparr>)
      else Some reg)"

definition FULMChannelRegistry_GetChannelConfig :: "FULMChannelRegistry \<Rightarrow> string \<Rightarrow> FULMChannelConfig" where
  "FULMChannelRegistry_GetChannelConfig reg ChannelName =
     (case TMap_Find (ChannelConfigs reg) ChannelName of
        Some Config \<Rightarrow> Config
      | None \<Rightarrow> DefaultConfig reg)"

section \<open>Memory budget tracker\<close>

text \<open>
  Source: \<^verbatim>\<open>Public/Core/ULMSubsystem.h\<close>, \<^verbatim>\<open>MemoryManagement/ULMMemoryBudget.{h,cpp}\<close>.
  \<^verbatim>\<open>FULMLogQueueEntry\<close> and \<^verbatim>\<open>FULMLogEntry\<close> have the same five fields; one record
  stands for both. (The field names carry the prefix \<open>Entry\<close> where the plain name is an
  enumerator of \<^typ>\<open>EULMVerbosity\<close>.) The timestamp is in ticks.
\<close>

record FULMLogEntry =
  EntryMessage :: string
  EntryChannel :: string
  EntryVerbosity :: EULMVerbosity
  Timestamp :: int
  ThreadId :: int

type_synonym FULMLogQueueEntry = FULMLogEntry

text \<open>The three \<^verbatim>\<open>sizeof\<close> constants of \<^verbatim>\<open>CalculateLogEntrySize\<close> depend on the platform
  and on engine headers; they are parameters of the model.\<close>

record type_sizes =
  sizeof_FULMLogEntry :: nat
  sizeof_FString :: nat
  sizeof_TCHAR :: nat

definition CalculateLogEntrySize :: "type_sizes \<Rightarrow> FULMLogEntry \<Rightarrow> nat" where
  "CalculateLogEntrySize sz Entry =
     sizeof_FULMLogEntry sz
     + length (EntryMessage Entry) * sizeof_TCHAR sz
     + length (EntryChannel Entry) * sizeof_TCHAR sz
     + sizeof_FString sz * 2"

text \<open>\<^verbatim>\<open>TotalMemoryUsedCounter\<close> is a signed 64-bit counter read back as \<^verbatim>\<open>SIZE_T\<close>: a
  machine word, so that a subtraction below zero reads as a huge usage. The per-channel
  \<^verbatim>\<open>SIZE_T\<close> usages, which the code clamps at zero, are natural numbers.\<close>

record FULMMemoryTracker =
  TotalMemoryUsedCounter :: "64 word"
  TotalEntriesCounter :: "32 word"
  TrimmingEventsCounter :: "32 word"
  MemoryBudget :: nat
  ChannelMemoryUsage :: "nat TMapL"
  LargestChannelName :: string
  LargestChannelUsage :: nat

definition FULMMemoryTracker_new :: FULMMemoryTracker where
  "FULMMemoryTracker_new =
     \<lparr>TotalMemoryUsedCounter = 0, TotalEntriesCounter = 0, TrimmingEventsCounter = 0,
      MemoryBudget = 52428800, ChannelMemoryUsage = [],
      LargestChannelName = ''None'', LargestChannelUsage = 0\<rparr>"

definition GetTotalMemoryUsage :: "FULMMemoryTracker \<Rightarrow> nat" where
  "GetTotalMemoryUsage t = unat (TotalMemoryUsedCounter t)"

definition UpdateLargestChannel :: "FULMMemoryTracker \<Rightarrow> FULMMemoryTracker" where
  "UpdateLargestChannel t =
     (let (NewLargestName, NewLargestUsage) =
            fold (\<lambda>(k, v) (n, u). if v > u then (k, v) else (n, u))
                 (ChannelMemoryUsage t) (''None'', 0)
      in t\<lparr>LargestChannelName := NewLargestName, LargestChannelUsage := NewLargestUsage\<rparr>)"

definition AddMemoryUsage :: "string \<Rightarrow> nat \<Rightarrow> FULMMemoryTracker \<Rightarrow> FULMMemoryTracker" where
  "AddMemoryUsage ChannelName MemorySize t =
     UpdateLargestChannel
       (t\<lparr>TotalMemoryUsedCounter := TotalMemoryUsedCounter t + of_nat MemorySize,
          TotalEntriesCounter := TotalEntriesCounter t + 1,
          ChannelMemoryUsage :=
            (case TMapL_Find (ChannelMemoryUsage t) ChannelName of
               Some ExistingUsage \<Rightarrow>
                 TMapL_Emplace (ChannelMemoryUsage t) ChannelName (ExistingUsage + MemorySize)
             | None \<Rightarrow> TMapL_Emplace (ChannelMemoryUsage t) ChannelName MemorySize)\<rparr>)"

definition RemoveMemoryUsage :: "string \<Rightarrow> nat \<Rightarrow> FULMMemoryTracker \<Rightarrow> FULMMemoryTracker" where
  "RemoveMemoryUsage ChannelName MemorySize t =
     UpdateLargestChannel
       (t\<lparr>TotalMemoryUsedCounter := TotalMemoryUsedCounter t - of_nat MemorySize,
          TotalEntriesCounter := TotalEntriesCounter t - 1,
          ChannelMemoryUsage :=
            (case TMapL_Find (ChannelMemoryUsage t) ChannelName of
               Some ExistingUsage \<Rightarrow>
                 (let NewUsage = (if ExistingUsage > MemorySize then ExistingUsage - MemorySize else 0)
                  in if NewUsage = 0 then TMapL_Remove (ChannelMemoryUsage t) ChannelName
                     else TMapL_Emplace (ChannelMemoryUsage t) ChannelName NewUsage)
             | None \<Rightarrow> ChannelMemoryUsage t)\<rparr>)"

definition GetChannelMemoryUsage :: "FULMMemoryTracker \<Rightarrow> string \<Rightarrow> nat" where
  "GetChannelMemoryUsage t ChannelName =
     (case TMapL_Find (ChannelMemoryUsage t) ChannelName of Some Usage \<Rightarrow> Usage | None \<Rightarrow> 0)"

text \<open>The sum \<^verbatim>\<open>CurrentUsage + AdditionalMemory\<close> is a \<^verbatim>\<open>SIZE_T\<close> sum: it wraps.\<close>

definition WouldExceedBudget :: "FULMMemoryTracker \<Rightarrow> nat \<Rightarrow> bool" where
  "WouldExceedBudget t AdditionalMemory =
     (unat (TotalMemoryUsedCounter t + of_nat AdditionalMemory) > MemoryBudget t)"

section \<open>The subsystem: registration, ingestion, storage and eviction\<close>

text \<open>
  Source: \<^verbatim>\<open>Private/Core/ULMSubsystem.cpp\<close>. Of the members of \<^verbatim>\<open>UULMSubsystem\<close> the
  state keeps the channel registry (a null pointer is \<^const>\<open>None\<close>), the ingestion queue,
  the per-channel entry store, the queue counters and the memory tracker. The timing
  counters \<^verbatim>\<open>TotalEnqueueTime\<close> and \<^verbatim>\<open>TotalDequeueTime\<close> (measured wall-clock time) and
  the hand-off of a formatted line to the file writer's queue in
  \<^verbatim>\<open>StoreProcessedLogEntry\<close> are left out: no modelled operation reads them.
\<close>

record FULMQueueDiagnostics =
  EnqueueCount :: "32 word"
  DequeueCount :: "32 word"
  DroppedCount :: "32 word"
  ProcessedCount :: "32 word"

record UULMSubsystem =
  ChannelRegistry :: "FULMChannelRegistry option"
  LogMessageQueue :: "FULMLogQueueEntry list"
  LogEntries :: "FULMLogEntry list TMapL"
  QueueDiagnostics :: FULMQueueDiagnostics
  MemoryTracker :: FULMMemoryTracker

definition MAX_QUEUE_SIZE :: int where
  "MAX_QUEUE_SIZE = 10000"

definition BATCH_SIZE :: nat where
  "BATCH_SIZE = 64"

text \<open>The master list \<^verbatim>\<open>ULM_CHANNEL_LIST\<close>: enumerator, channel string, display string.\<close>

definition ULM_CHANNEL_LIST :: "(string \<times> string \<times> string) list" where
  "ULM_CHANNEL_LIST =
     [(''ULM'', ''ULM'', ''ULM (All Logs)''),
      (''Gameplay'', ''Gameplay'', ''ULMGameplay''),
      (''Network'', ''Network'', ''ULMNetwork''),
      (''Performance'', ''Performance'', ''ULMPerformance''),
      (''Debug'', ''Debug'', ''ULMDebug''),
      (''AI'', ''AI'', ''ULMAI''),
      (''Physics'', ''Physics'', ''ULMPhysics''),
      (''Audio'', ''Audio'', ''ULMAudio''),
      (''Animation'', ''Animation'', ''ULMAnimation''),
      (''UI'', ''UI'', ''ULMUI''),
      (''Subsystem'', ''Subsystem'', ''ULMSubsystem''),
      (''Custom'', ''Custom'', ''Custom (String)'')]"

text \<open>\<^verbatim>\<open>IsChannelInMasterList\<close>: one \<^verbatim>\<open>if (ChannelName == TEXT(ChannelStr)) return true;\<close>
  per row of the list.\<close>

definition IsChannelInMasterList :: "string \<Rightarrow> bool" where
  "IsChannelInMasterList ChannelName =
     list_ex (\<lambda>(EnumName, ChannelStr, DisplayStr). FString_eq ChannelName ChannelStr)
       ULM_CHANNEL_LIST"

text \<open>\<^verbatim>\<open>UULMSubsystem::RegisterChannel\<close>.\<close>

definition UULMSubsystem_RegisterChannel ::
  "nat \<Rightarrow> string \<Rightarrow> FULMChannelConfig \<Rightarrow> UULMSubsystem \<Rightarrow> UULMSubsystem option" where
  "UULMSubsystem_RegisterChannel fuel ChannelName Config s =
     (if \<not> IsChannelInMasterList ChannelName then Some s
      else
        case ChannelRegistry s of
          None \<Rightarrow> Some s
        | Some reg \<Rightarrow>
            (case FULMChannelRegistry_RegisterChannel fuel ChannelName Config reg of
               None \<Rightarrow> None
             | Some reg1 \<Rightarrow>
                 Some (s\<lparr>ChannelRegistry := Some reg1,
                         LogEntries :=
                           (if TMapL_Find (LogEntries s) ChannelName = None
                            then TMapL_Emplace (LogEntries s) ChannelName []
                            else LogEntries s)\<rparr>)))"

text \<open>\<^verbatim>\<open>UULMSubsystem::GetQueueSize\<close>: the difference of two \<^verbatim>\<open>int32\<close> counter values,
  not below zero.\<close>

definition GetQueueSize :: "UULMSubsystem \<Rightarrow> int" where
  "GetQueueSize s =
     max 0 (sint (EnqueueCount (QueueDiagnostics s) - DequeueCount (QueueDiagnostics s)))"

text \<open>
  \<^verbatim>\<open>UULMSubsystem::StoreLogEntryInternal\<close>. What the call reads from its environment is
  an argument: the clock reading for the rate limiter, the timestamp and thread id the
  queue entry's constructor takes, and whether \<^verbatim>\<open>TQueue::Enqueue\<close> succeeded.
\<close>

definition StoreLogEntryInternal ::
  "rat \<Rightarrow> int \<Rightarrow> int \<Rightarrow> bool \<Rightarrow> string \<Rightarrow> string \<Rightarrow> EULMVerbosity \<Rightarrow> UULMSubsystem \<Rightarrow> UULMSubsystem" where
  "StoreLogEntryInternal CurrentTime Now CurrentThreadId EnqueueOk Msg ChannelName Verbosity s =
     (let (admitted, s1) =
            (case ChannelRegistry s of
               None \<Rightarrow> (True, s)
             | Some reg \<Rightarrow>
                 (let (r, reg1) = CanChannelLog CurrentTime ChannelName Verbosity reg
                  in (r, s\<lparr>ChannelRegistry := Some reg1\<rparr>)))
      in if \<not> admitted then s1
         else if GetQueueSize s1 \<ge> MAX_QUEUE_SIZE
         then s1\<lparr>QueueDiagnostics :=
                   (QueueDiagnostics s1)\<lparr>DroppedCount := DroppedCount (QueueDiagnostics s1) + 1\<rparr>\<rparr>
         else
           let QueueEntry = \<lparr>EntryMessage = Msg, EntryChannel = ChannelName,
                              EntryVerbosity = Verbosity, Timestamp = Now,
                              ThreadId = CurrentThreadId\<rparr>
           in if EnqueueOk
              then s1\<lparr>LogMessageQueue := LogMessageQueue s1 @ [QueueEntry],
                      QueueDiagnostics :=
                        (QueueDiagnostics s1)\<lparr>EnqueueCount := EnqueueCount (QueueDiagnostics s1) + 1\<rparr>\<rparr>
              else s1\<lparr>QueueDiagnostics :=
                        (QueueDiagnostics s1)\<lparr>DroppedCount := DroppedCount (QueueDiagnostics s1) + 1\<rparr>\<rparr>)"

text \<open>\<^verbatim>\<open>UULMSubsystem::TrimChannelForMemory\<close>: the oldest entries are at the front.\<close>

definition TrimChannelForMemory :: "type_sizes \<Rightarrow> string \<Rightarrow> int \<Rightarrow> UULMSubsystem \<Rightarrow> UULMSubsystem" where
  "TrimChannelForMemory sz ChannelName EntriesToRemove s =
     (case TMapL_Find (LogEntries s) ChannelName of
        None \<Rightarrow> s
      | Some ChannelEntries \<Rightarrow>
          if EntriesToRemove \<le> 0 \<or> length ChannelEntries = 0 then s
          else
            let n = nat (min EntriesToRemove (int (length ChannelEntries)));
                MemoryToRemove = sum_list (map (CalculateLogEntrySize sz) (take n ChannelEntries))
            in s\<lparr>LogEntries := TMapL_Emplace (LogEntries s) ChannelName (drop n ChannelEntries),
                  MemoryTracker := RemoveMemoryUsage ChannelName MemoryToRemove (MemoryTracker s)\<rparr>)"

text \<open>The target fraction of \<^verbatim>\<open>TrimMemoryBudget\<close>. With a budget of zero the ratio of
  the floating-point division is \<open>+\<infinity>\<close> (the usage is positive there), above \<open>1.2\<close>.\<close>

definition TargetPercent :: "nat \<Rightarrow> nat \<Rightarrow> rat" where
  "TargetPercent CurrentUsage Budget =
     (if Budget = 0 then 1 / 2
      else
        let OverageRatio = of_nat CurrentUsage / of_nat Budget :: rat in
        if OverageRatio > 12 / 10 then 1 / 2
        else if OverageRatio > 11 / 10 then 6 / 10
        else 75 / 100)"

text \<open>The share of a channel's entries to remove, from the reduction still needed.\<close>

definition RemovalPercent :: "rat \<Rightarrow> rat \<Rightarrow> rat" where
  "RemovalPercent RemainingReduction ChannelSize =
     (if RemainingReduction > ChannelSize * (1 / 2) then 75 / 100
      else if RemainingReduction > ChannelSize * (1 / 4) then 1 / 2
      else 1 / 4)"

text \<open>The channels with their tracked usage, largest first. (\<^verbatim>\<open>TArray::Sort\<close> is not
  stable; the model's sort is, which fixes the order among channels of equal usage.)\<close>

definition ChannelsByUsage :: "UULMSubsystem \<Rightarrow> (string \<times> nat) list" where
  "ChannelsByUsage s =
     sort_key (\<lambda>p. - int (snd p))
       (map (\<lambda>(k, v). (k, GetChannelMemoryUsage (MemoryTracker s) k)) (LogEntries s))"

text \<open>The loop of \<^verbatim>\<open>TrimMemoryBudget\<close> over the sorted channels: the state and the
  bytes freed so far.\<close>

fun TrimMemoryBudget_loop ::
  "type_sizes \<Rightarrow> nat \<Rightarrow> (string \<times> nat) list \<Rightarrow> nat \<Rightarrow> UULMSubsystem \<Rightarrow> UULMSubsystem \<times> nat" where
  "TrimMemoryBudget_loop sz TargetReduction [] TotalReduced s = (s, TotalReduced)"
| "TrimMemoryBudget_loop sz TargetReduction ((ChannelName, ChannelSize) # rest) TotalReduced s =
     (if TotalReduced \<ge> TargetReduction then (s, TotalReduced)
      else
        case TMapL_Find (LogEntries s) ChannelName of
          None \<Rightarrow> TrimMemoryBudget_loop sz TargetReduction rest TotalReduced s
        | Some ChannelEntries \<Rightarrow>
            if length ChannelEntries > 0
            then
              let RemainingReduction = of_nat (TargetReduction - TotalReduced) :: rat;
                  p = RemovalPercent RemainingReduction (of_nat ChannelSize);
                  EntriesToRemove =
                    min (max 1 \<lfloor>of_nat (length ChannelEntries) * p\<rfloor>) (int (length ChannelEntries));
                  MemoryBefore = GetChannelMemoryUsage (MemoryTracker s) ChannelName;
                  s1 = TrimChannelForMemory sz ChannelName EntriesToRemove s;
                  MemoryAfter = GetChannelMemoryUsage (MemoryTracker s1) ChannelName;
                  ReducedThisChannel = MemoryBefore - MemoryAfter
              in TrimMemoryBudget_loop sz TargetReduction rest (TotalReduced + ReducedThisChannel) s1
            else TrimMemoryBudget_loop sz TargetReduction rest TotalReduced s)"

text \<open>\<^verbatim>\<open>UULMSubsystem::TrimMemoryBudget\<close>.\<close>

definition TrimMemoryBudget :: "type_sizes \<Rightarrow> UULMSubsystem \<Rightarrow> UULMSubsystem" where
  "TrimMemoryBudget sz s =
     (let CurrentUsage = GetTotalMemoryUsage (MemoryTracker s);
          Budget = MemoryBudget (MemoryTracker s);
          ReasonableBuffer = nat \<lfloor>of_nat Budget * (2 / 100 :: rat)\<rfloor>
      in if CurrentUsage \<le> Budget - ReasonableBuffer then s
         else
           let TargetReduction =
                 nat \<lfloor>of_nat CurrentUsage - of_nat Budget * TargetPercent CurrentUsage Budget\<rfloor>;
               (s1, TotalReduced) =
                 TrimMemoryBudget_loop sz TargetReduction (ChannelsByUsage s) 0 s
           in s1\<lparr>MemoryTracker :=
                   (MemoryTracker s1)\<lparr>TrimmingEventsCounter :=
                                         TrimmingEventsCounter (MemoryTracker s1) + 1\<rparr>\<rparr>)"

text \<open>
  \<^verbatim>\<open>UULMSubsystem::StoreProcessedLogEntry\<close>, in two parts: the part under the storage
  lock (store the entry, track its memory, enforce the channel's own cap), and the whole
  function with the master-list gate and the memory-budget admission before it.
\<close>

definition StoreProcessedLogEntry_locked ::
  "type_sizes \<Rightarrow> nat \<Rightarrow> FULMLogEntry \<Rightarrow> nat \<Rightarrow> UULMSubsystem \<Rightarrow> UULMSubsystem option" where
  "StoreProcessedLogEntry_locked sz fuel Entry EntryMemorySize s =
     (case (if TMapL_Find (LogEntries s) (EntryChannel Entry) = None
            then
              (let s1 = s\<lparr>LogEntries := TMapL_Emplace (LogEntries s) (EntryChannel Entry) []\<rparr>
               in case ChannelRegistry s1 of
                    None \<Rightarrow> Some s1
                  | Some reg \<Rightarrow>
                      if \<not> FULMChannelRegistry_IsChannelRegistered reg (EntryChannel Entry)
                      then map_option (\<lambda>reg1. s1\<lparr>ChannelRegistry := Some reg1\<rparr>)
                             (FULMChannelRegistry_RegisterChannel fuel (EntryChannel Entry)
                                FULMChannelConfig_default reg)
                      else Some s1)
            else Some s) of
        None \<Rightarrow> None
      | Some s2 \<Rightarrow>
          let ChannelEntries =
                (case TMapL_Find (LogEntries s2) (EntryChannel Entry) of
                   Some es \<Rightarrow> es @ [Entry] | None \<Rightarrow> [Entry]);
              s3 = s2\<lparr>LogEntries := TMapL_Emplace (LogEntries s2) (EntryChannel Entry) ChannelEntries,
                      MemoryTracker :=
                        AddMemoryUsage (EntryChannel Entry) EntryMemorySize (MemoryTracker s2)\<rparr>
          in (case ChannelRegistry s3 of
                None \<Rightarrow> Some s3
              | Some reg \<Rightarrow>
                  (let Config = FULMChannelRegistry_GetChannelConfig reg (EntryChannel Entry) in
                   if int (length ChannelEntries) > MaxLogEntries Config
                   then Some (TrimChannelForMemory sz (EntryChannel Entry)
                                (int (length ChannelEntries) - MaxLogEntries Config) s3)
                   else Some s3)))"

definition StoreProcessedLogEntry ::
  "type_sizes \<Rightarrow> nat \<Rightarrow> FULMLogEntry \<Rightarrow> UULMSubsystem \<Rightarrow> UULMSubsystem option" where
  "StoreProcessedLogEntry sz fuel Entry s =
     (if \<not> IsChannelInMasterList (EntryChannel Entry) then Some s
      else
        let EntryMemorySize = CalculateLogEntrySize sz Entry in
        if WouldExceedBudget (MemoryTracker s) EntryMemorySize
        then
          let s1 = TrimMemoryBudget sz s in
          if WouldExceedBudget (MemoryTracker s1) EntryMemorySize then Some s1
          else StoreProcessedLogEntry_locked sz fuel Entry EntryMemorySize s1
        else StoreProcessedLogEntry_locked sz fuel Entry EntryMemorySize s)"

definition ProcessLogEntry ::
  "type_sizes \<Rightarrow> nat \<Rightarrow> FULMLogQueueEntry \<Rightarrow> UULMSubsystem \<Rightarrow> UULMSubsystem option" where
  "ProcessLogEntry sz fuel QueueEntry s =
     StoreProcessedLogEntry sz fuel
       \<lparr>EntryMessage = EntryMessage QueueEntry, EntryChannel = EntryChannel QueueEntry,
        EntryVerbosity = EntryVerbosity QueueEntry, Timestamp = Timestamp QueueEntry,
        ThreadId = ThreadId QueueEntry\<rparr> s"

definition UpdateProcessingDiagnostics :: "UULMSubsystem \<Rightarrow> UULMSubsystem" where
  "UpdateProcessingDiagnostics s =
     s\<lparr>QueueDiagnostics :=
         (QueueDiagnostics s)\<lparr>DequeueCount := DequeueCount (QueueDiagnostics s) + 1,
                               ProcessedCount := ProcessedCount (QueueDiagnostics s) + 1\<rparr>\<rparr>"

section \<open>Log processor\<close>

text \<open>
  Source: \<^verbatim>\<open>Logging/ULMLogProcessor.{h,cpp}\<close>. The queue the processor drains is the
  subsystem's \<^verbatim>\<open>LogMessageQueue\<close>. \<^verbatim>\<open>ProcessBatch\<close> (for a processor whose subsystem
  pointer is set) is a loop on the local counter \<^verbatim>\<open>ProcessedCount\<close>.
\<close>

function ProcessBatch_loop :: "type_sizes \<Rightarrow> nat \<Rightarrow> nat \<Rightarrow> UULMSubsystem \<Rightarrow> UULMSubsystem option" where
  "ProcessBatch_loop sz fuel Processed s =
     (if Processed < BATCH_SIZE
      then
        (case LogMessageQueue s of
           [] \<Rightarrow> Some s
         | Entry # rest \<Rightarrow>
             (case ProcessLogEntry sz fuel Entry (s\<lparr>LogMessageQueue := rest\<rparr>) of
                None \<Rightarrow> None
              | Some s1 \<Rightarrow>
                  ProcessBatch_loop sz fuel (Processed + 1) (UpdateProcessingDiagnostics s1)))
      else Some s)"
  by pat_completeness auto
termination
  by (relation "measure (\<lambda>(sz, fuel, Processed, s). BATCH_SIZE - Processed)") auto

declare ProcessBatch_loop.simps [simp del]

definition ProcessBatch :: "type_sizes \<Rightarrow> nat \<Rightarrow> UULMSubsystem \<Rightarrow> UULMSubsystem option" where
  "ProcessBatch sz fuel s = ProcessBatch_loop sz fuel 0 s"

text \<open>The statements of \<^verbatim>\<open>FULMLogProcessor::Run\<close> after its loop is left, that is once
  the stop flag has been read as set: one call of \<^verbatim>\<open>ProcessBatch\<close>, then the thread
  returns.\<close>

definition Run_after_stop :: "type_sizes \<Rightarrow> nat \<Rightarrow> UULMSubsystem \<Rightarrow> UULMSubsystem option" where
  "Run_after_stop sz fuel s = ProcessBatch sz fuel s"

section \<open>Log files: tracking and rotation\<close>

text \<open>
  Source: \<^verbatim>\<open>MemoryManagement/ULMLogRotation.{h,cpp}\<close>. The engine's string and path
  helpers that the rotation code calls are modelled first: decimal formatting as in
  \<^verbatim>\<open>%d\<close> and \<^verbatim>\<open>%03d\<close>, \<^verbatim>\<open>FCString::Atoi\<close>, \<^verbatim>\<open>FString::ParseIntoArray\<close> with empty
  parts culled, and the path functions of \<^verbatim>\<open>FPaths\<close>.
\<close>

definition digit_char :: "nat \<Rightarrow> char" where
  "digit_char d = ''0123456789'' ! (d mod 10)"

function decimal :: "nat \<Rightarrow> string" where
  "decimal n = (if n < 10 then [digit_char n] else decimal (n div 10) @ [digit_char (n mod 10)])"
  by pat_completeness auto
termination
  by (relation "measure id") auto

declare decimal.simps [simp del]

definition pad_zero :: "nat \<Rightarrow> string \<Rightarrow> string" where
  "pad_zero width str = replicate (width - length str) (CHR ''0'') @ str"

definition digit_value :: "char \<Rightarrow> nat option" where
  "digit_value c = map_of (zip ''0123456789'' [0, 1, 2, 3, 4, 5, 6, 7, 8, 9]) c"

text \<open>The value of the longest prefix of decimal digits, onto an accumulator.\<close>

fun digits_value :: "nat \<Rightarrow> string \<Rightarrow> nat" where
  "digits_value acc [] = acc"
| "digits_value acc (c # cs) =
     (case digit_value c of
        Some d \<Rightarrow> digits_value (acc * 10 + d) cs
      | None \<Rightarrow> acc)"

definition Atoi :: "string \<Rightarrow> int" where
  "Atoi str =
     (case dropWhile (\<lambda>c. c = CHR '' '') str of
        [] \<Rightarrow> 0
      | c # cs \<Rightarrow>
          if c = CHR ''-'' then - int (digits_value 0 cs)
          else if c = CHR ''+'' then int (digits_value 0 cs)
          else int (digits_value 0 (c # cs)))"

text \<open>Splitting at a delimiter character; the parts between delimiters, in order.\<close>

fun split_at :: "char \<Rightarrow> string \<Rightarrow> string \<Rightarrow> string list" where
  "split_at d cur [] = [cur]"
| "split_at d cur (c # cs) = (if c = d then cur # split_at d [] cs else split_at d (cur @ [c]) cs)"

definition ParseIntoArray :: "string \<Rightarrow> char \<Rightarrow> string list" where
  "ParseIntoArray str delim = filter (\<lambda>part. part \<noteq> []) (split_at delim [] str)"

definition is_path_separator :: "char \<Rightarrow> bool" where
  "is_path_separator c = (c = CHR ''/'' \<or> c = CHR 0x5C)"

text \<open>\<^verbatim>\<open>FPaths::GetCleanFilename\<close>: what follows the last path separator.\<close>

definition GetCleanFilename :: "string \<Rightarrow> string" where
  "GetCleanFilename path = rev (takeWhile (\<lambda>c. \<not> is_path_separator c) (rev path))"

text \<open>\<^verbatim>\<open>FPaths::GetPath\<close>: what precedes the last path separator, empty without one.\<close>

definition GetPath :: "string \<Rightarrow> string" where
  "GetPath path = rev (drop 1 (dropWhile (\<lambda>c. \<not> is_path_separator c) (rev path)))"

text \<open>\<^verbatim>\<open>FPaths::GetBaseFilename\<close>: the clean file name without its extension.\<close>

definition GetBaseFilename :: "string \<Rightarrow> string" where
  "GetBaseFilename path =
     (let name = GetCleanFilename path in
      case FindLastChar (CHR ''.'') name of
        Some i \<Rightarrow> take i name
      | None \<Rightarrow> name)"

text \<open>The path operator \<^verbatim>\<open>/\<close> of \<^verbatim>\<open>FString\<close>: one separator between directory and name.\<close>

definition PathAppend :: "string \<Rightarrow> string \<Rightarrow> string" where
  "PathAppend dir name =
     (if dir \<noteq> [] \<and> \<not> is_path_separator (last dir)
         \<and> \<not> (name \<noteq> [] \<and> is_path_separator (hd name))
      then dir @ ''/'' @ name
      else dir @ name)"

text \<open>\<^verbatim>\<open>FDateTime\<close>: the calendar date and the time within the day (in ticks).\<close>

record FDateTime =
  Year :: nat
  Month :: nat
  Day :: nat
  TimeOfDay :: nat

text \<open>\<^verbatim>\<open>ToString(TEXT("%Y%m%d"))\<close>.\<close>

definition DateString :: "FDateTime \<Rightarrow> string" where
  "DateString d =
     pad_zero 4 (decimal (Year d)) @ pad_zero 2 (decimal (Month d)) @ pad_zero 2 (decimal (Day d))"

record FULMRotationConfig =
  MaxFileSizeBytes :: int
  RetentionDays :: int
  MaxFilesPerDay :: int
  bAutoCleanupOnStartup :: bool
  bPeriodicCleanup :: bool
  CleanupIntervalHours :: rat


record FULMLogFileInfo =
  FilePath :: string
  FileChannelName :: string
  CreationDate :: FDateTime
  FileSize :: int
  FileIndex :: int
  bIsActive :: bool

text \<open>The four-argument constructor of \<^verbatim>\<open>FULMLogFileInfo\<close>: size zero, not active.\<close>

definition FULMLogFileInfo_make :: "string \<Rightarrow> string \<Rightarrow> FDateTime \<Rightarrow> int \<Rightarrow> FULMLogFileInfo" where
  "FULMLogFileInfo_make InFilePath InChannelName InDate InIndex =
     \<lparr>FilePath = InFilePath, FileChannelName = InChannelName, CreationDate = InDate,
      FileSize = 0, FileIndex = InIndex, bIsActive = False\<rparr>"

record FULMLogFileTracker =
  ChannelFiles :: "FULMLogFileInfo list TMapL"

definition FULMLogFileTracker_new :: FULMLogFileTracker where
  "FULMLogFileTracker_new = \<lparr>ChannelFiles = []\<rparr>"

text \<open>A loop that changes the first element satisfying a test and then leaves
  (\<^verbatim>\<open>return\<close> or \<^verbatim>\<open>break\<close>).\<close>

fun update_first :: "('a \<Rightarrow> bool) \<Rightarrow> ('a \<Rightarrow> 'a) \<Rightarrow> 'a list \<Rightarrow> 'a list" where
  "update_first P f [] = []"
| "update_first P f (x # xs) = (if P x then f x # xs else x # update_first P f xs)"

text \<open>\<^verbatim>\<open>FULMLogFileTracker::RegisterFile\<close>.\<close>

definition RegisterFile ::
  "string \<Rightarrow> string \<Rightarrow> FDateTime \<Rightarrow> int \<Rightarrow> FULMLogFileTracker \<Rightarrow> FULMLogFileTracker" where
  "RegisterFile Channel Path Date Index tr =
     (let NewFile = FULMLogFileInfo_make Path Channel Date Index;
          Files = (case TMapL_Find (ChannelFiles tr) Channel of Some fs \<Rightarrow> fs | None \<Rightarrow> [])
      in if list_ex (\<lambda>ExistingFile. FString_eq (FilePath ExistingFile) Path) Files
         then tr\<lparr>ChannelFiles := TMapL_Emplace (ChannelFiles tr) Channel
                   (update_first (\<lambda>ExistingFile. FString_eq (FilePath ExistingFile) Path)
                      (\<lambda>ExistingFile. ExistingFile\<lparr>CreationDate := Date, FileIndex := Index\<rparr>)
                      Files)\<rparr>
         else tr\<lparr>ChannelFiles := TMapL_Emplace (ChannelFiles tr) Channel (Files @ [NewFile])\<rparr>)"

text \<open>\<^verbatim>\<open>FULMLogFileTracker::UpdateFileSize\<close>.\<close>

definition UpdateFileSize :: "string \<Rightarrow> int \<Rightarrow> FULMLogFileTracker \<Rightarrow> FULMLogFileTracker" where
  "UpdateFileSize Channel NewSize tr =
     (case TMapL_Find (ChannelFiles tr) Channel of
        None \<Rightarrow> tr
      | Some Files \<Rightarrow>
          tr\<lparr>ChannelFiles := TMapL_Emplace (ChannelFiles tr) Channel
                (update_first bIsActive (\<lambda>File. File\<lparr>FileSize := NewSize\<rparr>) Files)\<rparr>)"


text \<open>\<^verbatim>\<open>FULMLogFileTracker::ShouldRotateFile\<close>.\<close>

definition Tracker_ShouldRotateFile :: "FULMLogFileTracker \<Rightarrow> string \<Rightarrow> int \<Rightarrow> bool" where
  "Tracker_ShouldRotateFile tr Channel MaxSize =
     (case TMapL_Find (ChannelFiles tr) Channel of
        None \<Rightarrow> False
      | Some Files \<Rightarrow> list_ex (\<lambda>File. bIsActive File \<and> FileSize File \<ge> MaxSize) Files)"

text \<open>The index loop of \<^verbatim>\<open>GenerateRotatedFilePath\<close>, started at \<open>1\<close>.\<close>

definition NextIndex :: "string \<Rightarrow> FULMLogFileInfo list \<Rightarrow> int" where
  "NextIndex Today Files =
     fold (\<lambda>File Next.
             if FString_eq (DateString (CreationDate File)) Today \<and> FileIndex File \<ge> Next
             then FileIndex File + 1 else Next)
          Files 1"

text \<open>\<^verbatim>\<open>Printf(TEXT("ULM_%s_%s_%03d.json"), ...)\<close> for an index that is not negative.\<close>

definition LogFileName :: "string \<Rightarrow> string \<Rightarrow> int \<Rightarrow> string" where
  "LogFileName Channel Today Index =
     ''ULM_'' @ Channel @ ''_'' @ Today @ ''_'' @ pad_zero 3 (decimal (nat Index)) @ ''.json''"

text \<open>\<^verbatim>\<open>FULMLogFileTracker::GenerateRotatedFilePath\<close>; the reading of
  \<^verbatim>\<open>FDateTime::Now()\<close> is an argument.\<close>

definition GenerateRotatedFilePath ::
  "FDateTime \<Rightarrow> FULMLogFileTracker \<Rightarrow> string \<Rightarrow> string \<Rightarrow> string" where
  "GenerateRotatedFilePath Now tr Channel BaseLogPath =
     (let Today = DateString Now;
          Next = (case TMapL_Find (ChannelFiles tr) Channel of
                    Some Files \<Rightarrow> NextIndex Today Files
                  | None \<Rightarrow> 1)
      in PathAppend BaseLogPath (LogFileName Channel Today Next))"

text \<open>\<^verbatim>\<open>FULMLogFileTracker::SetFileActive\<close>: all files of the channel are deactivated,
  then the first one with the given path is activated.\<close>

definition SetFileActive :: "string \<Rightarrow> string \<Rightarrow> FULMLogFileTracker \<Rightarrow> FULMLogFileTracker" where
  "SetFileActive Channel Path tr =
     (case TMapL_Find (ChannelFiles tr) Channel of
        None \<Rightarrow> tr
      | Some Files \<Rightarrow>
          tr\<lparr>ChannelFiles := TMapL_Emplace (ChannelFiles tr) Channel
                (update_first (\<lambda>File. FString_eq (FilePath File) Path)
                   (\<lambda>File. File\<lparr>bIsActive := True\<rparr>)
                   (map (\<lambda>File. File\<lparr>bIsActive := False\<rparr>) Files))\<rparr>)"

text \<open>\<^verbatim>\<open>FULMLogFileTracker::RemoveFile\<close>: in every channel.\<close>

definition RemoveFile :: "string \<Rightarrow> FULMLogFileTracker \<Rightarrow> FULMLogFileTracker" where
  "RemoveFile Path tr =
     tr\<lparr>ChannelFiles :=
          map (\<lambda>(k, Files). (k, filter (\<lambda>File. \<not> FString_eq (FilePath File) Path) Files))
              (ChannelFiles tr)\<rparr>"

text \<open>\<^verbatim>\<open>FULMLogFileTracker::ParseLogFileName\<close>: \<^const>\<open>None\<close> for \<^verbatim>\<open>false\<close>, else channel,
  date (year, month, day) and index.\<close>

definition ParseLogFileName :: "string \<Rightarrow> (string \<times> (int \<times> int \<times> int) \<times> int) option" where
  "ParseLogFileName FileName =
     (let Parts = ParseIntoArray FileName (CHR ''_'') in
      if length Parts < 4 then None
      else if \<not> FString_eq (Parts ! 0) ''ULM'' then None
      else
        let DateStr = Parts ! 2 in
        if length DateStr \<noteq> 8 then None
        else Some (Parts ! 1,
                   (Atoi (take 4 DateStr), Atoi (take 2 (drop 4 DateStr)), Atoi (drop 6 DateStr)),
                   Atoi (GetBaseFilename (Parts ! 3))))"

record FULMLogRotator =
  RotatorConfig :: FULMRotationConfig
  FileTracker :: FULMLogFileTracker
  TotalRotations :: "32 word"

definition IsValidRotationConfig :: "FULMLogRotator \<Rightarrow> bool" where
  "IsValidRotationConfig rot =
     (MaxFileSizeBytes (RotatorConfig rot) > 0 \<and> RetentionDays (RotatorConfig rot) > 0)"

text \<open>\<^verbatim>\<open>FULMLogRotator::ShouldRotateFile\<close>; the size of the file on disk is an argument.\<close>

definition ShouldRotateFile :: "int \<Rightarrow> FULMLogRotator \<Rightarrow> string \<Rightarrow> bool" where
  "ShouldRotateFile DiskFileSize rot Channel =
     (if \<not> IsValidRotationConfig rot then False
      else if DiskFileSize \<ge> MaxFileSizeBytes (RotatorConfig rot) then True
      else Tracker_ShouldRotateFile (FileTracker rot) Channel (MaxFileSizeBytes (RotatorConfig rot)))"

text \<open>\<^verbatim>\<open>FULMLogRotator::RotateFile\<close>: the new state and the returned path. The two
  readings of \<^verbatim>\<open>FDateTime::Now()\<close> (for the name, for the registration) are arguments.\<close>

definition RotateFile ::
  "FDateTime \<Rightarrow> FDateTime \<Rightarrow> string \<Rightarrow> string \<Rightarrow> FULMLogRotator \<Rightarrow> FULMLogRotator \<times> string" where
  "RotateFile NowName NowRegister Channel CurrentFilePath rot =
     (if \<not> IsValidRotationConfig rot then (rot, CurrentFilePath)
      else
        let BaseLogPath = GetPath CurrentFilePath;
            NewFilePath = GenerateRotatedFilePath NowName (FileTracker rot) Channel BaseLogPath;
            tr1 = SetFileActive Channel [] (FileTracker rot);
            tr2 = (case ParseLogFileName (GetCleanFilename NewFilePath) of
                     Some (OutChannel, OutDate, Index) \<Rightarrow>
                       SetFileActive Channel NewFilePath
                         (RegisterFile Channel NewFilePath NowRegister Index tr1)
                   | None \<Rightarrow> tr1)
        in (rot\<lparr>FileTracker := tr2, TotalRotations := TotalRotations rot + 1\<rparr>, NewFilePath))"


text \<open>\<^verbatim>\<open>FULMLogRotator::RegisterNewFile\<close>.\<close>

definition RegisterNewFile :: "FDateTime \<Rightarrow> string \<Rightarrow> string \<Rightarrow> FULMLogRotator \<Rightarrow> FULMLogRotator" where
  "RegisterNewFile Now Channel Path rot =
     (case ParseLogFileName (GetCleanFilename Path) of
        Some (OutChannel, OutDate, Index) \<Rightarrow>
          rot\<lparr>FileTracker :=
                SetFileActive Channel Path (RegisterFile Channel Path Now Index (FileTracker rot))\<rparr>
      | None \<Rightarrow> rot)"

section \<open>Verification: the token bucket\<close>













section \<open>Verification: inheritance of effective settings\<close>

text \<open>
  \<^verbatim>\<open>RebuildEffectiveSettings\<close> returns on every registry in which the names listed as
  children of a channel are longer than the channel's own name (a child is registered
  as \<open>parent.local\<close>) and the channel names are bounded in length. Under the first
  condition the recursion into the children never touches the channel itself.
\<close>

lemma verbosity_max_value:
  "verbosity_value (verbosity_max a b) = max (verbosity_value a) (verbosity_value b)"
  by (simp add: verbosity_max_def verbosity_less_def max_def)

definition children_longer :: "FULMChannelRegistry \<Rightarrow> bool" where
  "children_longer reg =
     (\<forall>k st c. ChannelStates reg k = Some st \<longrightarrow> c \<in> set (ChildChannels st) \<longrightarrow> length k < length c)"

definition names_bounded :: "nat \<Rightarrow> FULMChannelRegistry \<Rightarrow> bool" where
  "names_bounded L reg = (\<forall>k st. ChannelStates reg k = Some st \<longrightarrow> length k \<le> L)"

definition same_shape :: "FULMChannelRegistry \<Rightarrow> FULMChannelRegistry \<Rightarrow> bool" where
  "same_shape reg reg' =
     (ChannelConfigs reg' = ChannelConfigs reg
      \<and> (\<forall>k. map_option ChildChannels (ChannelStates reg' k)
               = map_option ChildChannels (ChannelStates reg k)))"

lemma length_FString_fold [simp]: "length (FString_fold s) = length s"
  by (simp add: FString_fold_def)

lemma same_shape_refl: "same_shape reg reg"
  by (simp add: same_shape_def)

lemma same_shape_trans: "same_shape a b \<Longrightarrow> same_shape b c \<Longrightarrow> same_shape a c"
  by (simp add: same_shape_def)

lemma same_shape_children_longer:
  assumes "same_shape reg reg'" "children_longer reg"
  shows "children_longer reg'"
  unfolding children_longer_def
proof (intro allI impI)
  fix k st c
  assume a: "ChannelStates reg' k = Some st" "c \<in> set (ChildChannels st)"
  from assms(1) have "map_option ChildChannels (ChannelStates reg' k)
               = map_option ChildChannels (ChannelStates reg k)"
    by (simp add: same_shape_def)
  with a(1) obtain st0 where "ChannelStates reg k = Some st0" "ChildChannels st0 = ChildChannels st"
    by (cases "ChannelStates reg k") auto
  with a(2) assms(2) show "length k < length c"
    unfolding children_longer_def by metis
qed

lemma same_shape_names_bounded:
  assumes "same_shape reg reg'" "names_bounded L reg"
  shows "names_bounded L reg'"
  unfolding names_bounded_def
proof (intro allI impI)
  fix k st
  assume a: "ChannelStates reg' k = Some st"
  from assms(1) have "map_option ChildChannels (ChannelStates reg' k)
               = map_option ChildChannels (ChannelStates reg k)"
    by (simp add: same_shape_def)
  with a obtain st0 where "ChannelStates reg k = Some st0"
    by (cases "ChannelStates reg k") auto
  with assms(2) show "length k \<le> L"
    unfolding names_bounded_def by metis
qed

lemma UpdateEffectiveSettings_ChildChannels [simp]:
  "ChildChannels (UpdateEffectiveSettings Config ParentState st) = ChildChannels st"
  by (simp add: UpdateEffectiveSettings_def split: option.splits)

lemma UpdateEffectiveSettings_ParentChannel [simp]:
  "ParentChannel (UpdateEffectiveSettings Config ParentState st) = ParentChannel st"
  by (simp add: UpdateEffectiveSettings_def split: option.splits)

lemma same_shape_update:
  assumes "ChannelStates reg (FString_fold n) = Some st" "ChildChannels st1 = ChildChannels st"
  shows "same_shape reg (reg\<lparr>ChannelStates := TMap_Emplace (ChannelStates reg) n st1\<rparr>)"
  using assms by (simp add: same_shape_def TMap_Emplace_def)

abbreviation rebuild_step :: "nat \<Rightarrow> string \<Rightarrow> FULMChannelRegistry option \<Rightarrow> FULMChannelRegistry option" where
  "rebuild_step fuel \<equiv> (\<lambda>ChildChannel r.
      case r of None \<Rightarrow> None | Some r1 \<Rightarrow> RebuildEffectiveSettings fuel ChildChannel r1)"

lemma fold_rebuild_None: "fold (rebuild_step fuel) cs None = None"
  by (induction cs) auto

lemma fold_rebuild_local:
  assumes IH: "\<And>c r r'. RebuildEffectiveSettings fuel c r = Some r' \<Longrightarrow> children_longer r \<Longrightarrow>
            same_shape r r' \<and> (\<forall>k. length k < length c \<longrightarrow> ChannelStates r' k = ChannelStates r k)"
  shows "fold (rebuild_step fuel) cs (Some r) = Some r' \<Longrightarrow> children_longer r \<Longrightarrow>
         \<forall>c \<in> set cs. m < length c \<Longrightarrow>
         same_shape r r' \<and> (\<forall>k. length k \<le> m \<longrightarrow> ChannelStates r' k = ChannelStates r k)"
proof (induction cs arbitrary: r)
  case Nil
  then show ?case by (simp add: same_shape_refl)
next
  case (Cons c cs)
  show ?case
  proof (cases "RebuildEffectiveSettings fuel c r")
    case None
    with Cons.prems(1) show ?thesis by (simp add: fold_rebuild_None)
  next
    case (Some r1)
    from IH[OF Some Cons.prems(2)] have s1: "same_shape r r1"
      and u1: "\<forall>k. length k < length c \<longrightarrow> ChannelStates r1 k = ChannelStates r k" by auto
    have cl1: "children_longer r1" using s1 Cons.prems(2) by (rule same_shape_children_longer)
    have f: "fold (rebuild_step fuel) cs (Some r1) = Some r'"
      using Cons.prems(1) Some by simp
    from Cons.IH[OF f cl1] Cons.prems(3)
    have s2: "same_shape r1 r'" and u2: "\<forall>k. length k \<le> m \<longrightarrow> ChannelStates r' k = ChannelStates r1 k"
      by auto
    have "m < length c" using Cons.prems(3) by simp
    with u1 u2 have "\<forall>k. length k \<le> m \<longrightarrow> ChannelStates r' k = ChannelStates r k"
      by auto
    with s1 s2 show ?thesis by (auto intro: same_shape_trans)
  qed
qed

lemma Rebuild_local:
  "RebuildEffectiveSettings fuel c r = Some r' \<Longrightarrow> children_longer r \<Longrightarrow>
     same_shape r r' \<and> (\<forall>k. length k < length c \<longrightarrow> ChannelStates r' k = ChannelStates r k)"
proof (induction fuel arbitrary: c r r')
  case 0
  then show ?case by simp
next
  case (Suc fuel)
  show ?case
  proof (cases "TMap_Find (ChannelStates r) c")
    case None
    with Suc.prems show ?thesis by (simp add: same_shape_refl)
  next
    case (Some State)
    note st = this
    show ?thesis
    proof (cases "TMap_Find (ChannelConfigs r) c")
      case None
      with st Suc.prems show ?thesis by (simp add: same_shape_refl)
    next
      case (Some Config)
      define ParentState where "ParentState =
        (if ParentChannel State \<noteq> [] then TMap_Find (ChannelStates r) (ParentChannel State) else None)"
      define State1 where "State1 = UpdateEffectiveSettings Config ParentState State"
      define r1 where "r1 = r\<lparr>ChannelStates := TMap_Emplace (ChannelStates r) c State1\<rparr>"
      have f: "fold (rebuild_step fuel) (ChildChannels State1) (Some r1) = Some r'"
        using Suc.prems(1) st Some by (simp add: Let_def ParentState_def State1_def r1_def)
      have stk: "ChannelStates r (FString_fold c) = Some State"
        using st by (simp add: TMap_Find_def)
      have s1: "same_shape r r1"
        unfolding r1_def using stk by (rule same_shape_update) (simp add: State1_def)
      have cl1: "children_longer r1" using s1 Suc.prems(2) by (rule same_shape_children_longer)
      have ch: "\<forall>c' \<in> set (ChildChannels State1). length c < length c'"
        using Suc.prems(2) stk unfolding children_longer_def State1_def
        by (metis UpdateEffectiveSettings_ChildChannels length_FString_fold)
      from fold_rebuild_local[of fuel "ChildChannels State1" r1 r' "length c", OF Suc.IH f cl1 ch]
      have s2: "same_shape r1 r'"
        and u2: "\<forall>k. length k \<le> length c \<longrightarrow> ChannelStates r' k = ChannelStates r1 k"
        by auto
      have "\<forall>k. length k < length c \<longrightarrow> ChannelStates r1 k = ChannelStates r k"
        by (auto simp: r1_def TMap_Emplace_def)
      with u2 have "\<forall>k. length k < length c \<longrightarrow> ChannelStates r' k = ChannelStates r k"
        by auto
      with s1 s2 show ?thesis by (auto intro: same_shape_trans)
    qed
  qed
qed


lemma fold_rebuild_returns:
  assumes IH: "\<And>c r. children_longer r \<Longrightarrow> names_bounded L r \<Longrightarrow> 1 \<le> fuel \<Longrightarrow>
                 L + 2 \<le> fuel + length c \<Longrightarrow> RebuildEffectiveSettings fuel c r \<noteq> None"
  shows "children_longer r \<Longrightarrow> names_bounded L r \<Longrightarrow> 1 \<le> fuel \<Longrightarrow>
         \<forall>c \<in> set cs. L + 2 \<le> fuel + length c \<Longrightarrow>
         fold (rebuild_step fuel) cs (Some r) \<noteq> None"
proof (induction cs arbitrary: r)
  case Nil
  then show ?case by simp
next
  case (Cons c cs)
  have "RebuildEffectiveSettings fuel c r \<noteq> None"
    using IH[OF Cons.prems(1,2,3)] Cons.prems(4) by simp
  then obtain r1 where r1: "RebuildEffectiveSettings fuel c r = Some r1" by auto
  from Rebuild_local[OF r1 Cons.prems(1)] have s1: "same_shape r r1" by simp
  have "fold (rebuild_step fuel) cs (Some r1) \<noteq> None"
    using Cons.IH[of r1] same_shape_children_longer[OF s1 Cons.prems(1)]
      same_shape_names_bounded[OF s1 Cons.prems(2)] Cons.prems(3,4) by simp
  then show ?case using r1 by simp
qed

lemma Rebuild_returns:
  "children_longer r \<Longrightarrow> names_bounded L r \<Longrightarrow> 1 \<le> fuel \<Longrightarrow>
   L + 2 \<le> fuel + length c \<Longrightarrow> RebuildEffectiveSettings fuel c r \<noteq> None"
proof (induction fuel arbitrary: c r)
  case 0
  then show ?case by simp
next
  case (Suc fuel)
  show ?case
  proof (cases "TMap_Find (ChannelStates r) c")
    case None
    then show ?thesis by simp
  next
    case (Some State)
    note st = this
    show ?thesis
    proof (cases "TMap_Find (ChannelConfigs r) c")
      case None
      with st show ?thesis by simp
    next
      case (Some Config)
      define ParentState where "ParentState =
        (if ParentChannel State \<noteq> [] then TMap_Find (ChannelStates r) (ParentChannel State) else None)"
      define State1 where "State1 = UpdateEffectiveSettings Config ParentState State"
      define r1 where "r1 = r\<lparr>ChannelStates := TMap_Emplace (ChannelStates r) c State1\<rparr>"
      have stk: "ChannelStates r (FString_fold c) = Some State"
        using st by (simp add: TMap_Find_def)
      have s1: "same_shape r r1"
        unfolding r1_def using stk by (rule same_shape_update) (simp add: State1_def)
      have cl1: "children_longer r1" using s1 Suc.prems(1) by (rule same_shape_children_longer)
      have nb1: "names_bounded L r1" using s1 Suc.prems(2) by (rule same_shape_names_bounded)
      have lc: "length c \<le> L"
        using Suc.prems(2) stk unfolding names_bounded_def by (metis length_FString_fold)
      have fuel1: "1 \<le> fuel" using Suc.prems(4) lc by simp
      have ch: "\<forall>c' \<in> set (ChildChannels State1). length c < length c'"
        using Suc.prems(1) stk unfolding children_longer_def State1_def
        by (metis UpdateEffectiveSettings_ChildChannels length_FString_fold)
      have ch2: "\<forall>c' \<in> set (ChildChannels State1). L + 2 \<le> fuel + length c'"
        using ch Suc.prems(4) by fastforce
      have "fold (rebuild_step fuel) (ChildChannels State1) (Some r1) \<noteq> None"
        using fold_rebuild_returns[of L fuel r1 "ChildChannels State1", OF Suc.IH cl1 nb1 fuel1 ch2]
        by simp
      then show ?thesis
        using st Some by (simp add: Let_def ParentState_def State1_def r1_def)
    qed
  qed
qed

lemma Rebuild_result:
  assumes cl: "children_longer reg" and nb: "names_bounded L reg"
    and st: "TMap_Find (ChannelStates reg) n = Some st"
    and cfg: "TMap_Find (ChannelConfigs reg) n = Some cfg"
    and fuel: "L + 2 \<le> fuel + length n"
  shows "\<exists>reg'. RebuildEffectiveSettings fuel n reg = Some reg'
           \<and> TMap_Find (ChannelStates reg') n =
               Some (UpdateEffectiveSettings cfg
                       (if ParentChannel st \<noteq> [] then TMap_Find (ChannelStates reg) (ParentChannel st)
                        else None) st)"
proof -
  have stk: "ChannelStates reg (FString_fold n) = Some st"
    using st by (simp add: TMap_Find_def)
  have lc: "length n \<le> L"
    using nb stk unfolding names_bounded_def by (metis length_FString_fold)
  then obtain f where f: "fuel = Suc f" using fuel by (cases fuel) auto
  have "RebuildEffectiveSettings fuel n reg \<noteq> None"
    using Rebuild_returns[OF cl nb _ fuel] f by simp
  then obtain reg' where r: "RebuildEffectiveSettings fuel n reg = Some reg'" by auto
  define ParentState where "ParentState =
    (if ParentChannel st \<noteq> [] then TMap_Find (ChannelStates reg) (ParentChannel st) else None)"
  define State1 where "State1 = UpdateEffectiveSettings cfg ParentState st"
  define r1 where "r1 = reg\<lparr>ChannelStates := TMap_Emplace (ChannelStates reg) n State1\<rparr>"
  have fo: "fold (rebuild_step f) (ChildChannels State1) (Some r1) = Some reg'"
    using r f st cfg by (simp add: Let_def ParentState_def State1_def r1_def)
  have s1: "same_shape reg r1"
    unfolding r1_def using stk by (rule same_shape_update) (simp add: State1_def)
  have cl1: "children_longer r1" using s1 cl by (rule same_shape_children_longer)
  have ch: "\<forall>c' \<in> set (ChildChannels State1). length n < length c'"
    using cl stk unfolding children_longer_def State1_def
    by (metis UpdateEffectiveSettings_ChildChannels length_FString_fold)
  from fold_rebuild_local[of f "ChildChannels State1" r1 reg' "length n", OF Rebuild_local fo cl1 ch]
  have "ChannelStates reg' (FString_fold n) = ChannelStates r1 (FString_fold n)"
    by simp
  then have "TMap_Find (ChannelStates reg') n = Some State1"
    by (simp add: TMap_Find_def r1_def TMap_Emplace_def)
  with r show ?thesis by (simp add: State1_def ParentState_def)
qed


definition example_registry :: FULMChannelRegistry where
  "example_registry =
     \<lparr>ChannelConfigs =
        [''gameplay'' \<mapsto> FULMChannelConfig_default\<lparr>MinVerbosity := Warning\<rparr>,
         ''gameplay.combat'' \<mapsto>
            FULMChannelConfig_default\<lparr>RateLimit := \<lparr>TokensPerSecond = 0, BurstCapacity = 0\<rparr>,
                                       MaxLogEntries := 250\<rparr>],
      ChannelStates =
        [''gameplay'' \<mapsto>
            FULMChannelState_default\<lparr>EffectiveMinVerbosity := Warning,
                                      EffectiveRateLimit := \<lparr>TokensPerSecond = 5, BurstCapacity = 5\<rparr>,
                                      ChildChannels := [''Gameplay.Combat'']\<rparr>,
         ''gameplay.combat'' \<mapsto> FULMChannelState_default\<lparr>ParentChannel := ''Gameplay''\<rparr>],
      DefaultConfig = FULMChannelConfig_default\<rparr>"


text \<open>
  Claim C5. Recomputing the effective settings of a registered channel
  (\<^const>\<open>RebuildEffectiveSettings\<close>) returns, and afterwards: when the channel has a
  registered parent and its inherit flag is set, it is enabled iff the parent is
  effectively enabled and the channel's own flag is set, its minimum severity is the
  greater of the parent's effective and its own, its rate limit is its own when that has
  a positive rate and the parent's effective one otherwise, and its maximum entry count
  is its own; without a registered parent, or without the flag, every effective field
  is the channel's own configured value.
\<close>

theorem C5_effective_settings:
  assumes "children_longer reg" and "names_bounded L reg"
    and "TMap_Find (ChannelStates reg) n = Some st"
    and "TMap_Find (ChannelConfigs reg) n = Some cfg"
    and "L + 2 \<le> fuel + length n"
  shows "\<exists>reg' st'. RebuildEffectiveSettings fuel n reg = Some reg'
           \<and> TMap_Find (ChannelStates reg') n = Some st'
           \<and> (case (if ParentChannel st \<noteq> [] then TMap_Find (ChannelStates reg) (ParentChannel st)
                     else None) of
                Some parent \<Rightarrow>
                  if bInheritFromParent cfg
                  then bEffectiveEnabled st' = (bEffectiveEnabled parent \<and> bEnabled cfg)
                     \<and> verbosity_value (EffectiveMinVerbosity st')
                         = max (verbosity_value (EffectiveMinVerbosity parent))
                               (verbosity_value (MinVerbosity cfg))
                     \<and> EffectiveRateLimit st'
                         = (if TokensPerSecond (RateLimit cfg) > 0 then RateLimit cfg
                            else EffectiveRateLimit parent)
                     \<and> EffectiveMaxEntries st' = MaxLogEntries cfg
                  else bEffectiveEnabled st' = bEnabled cfg
                     \<and> EffectiveMinVerbosity st' = MinVerbosity cfg
                     \<and> EffectiveRateLimit st' = RateLimit cfg
                     \<and> EffectiveMaxEntries st' = MaxLogEntries cfg
              | None \<Rightarrow>
                  bEffectiveEnabled st' = bEnabled cfg
                  \<and> EffectiveMinVerbosity st' = MinVerbosity cfg
                  \<and> EffectiveRateLimit st' = RateLimit cfg
                  \<and> EffectiveMaxEntries st' = MaxLogEntries cfg)"
proof -
  from Rebuild_result[OF assms] obtain reg' where
    r: "RebuildEffectiveSettings fuel n reg = Some reg'"
    and s: "TMap_Find (ChannelStates reg') n =
               Some (UpdateEffectiveSettings cfg
                       (if ParentChannel st \<noteq> [] then TMap_Find (ChannelStates reg) (ParentChannel st)
                        else None) st)"
    by blast
  show ?thesis
    apply (rule exI[of _ reg'])
    apply (rule exI[of _ "UpdateEffectiveSettings cfg
                       (if ParentChannel st \<noteq> [] then TMap_Find (ChannelStates reg) (ParentChannel st)
                        else None) st"])
    using r s
    by (auto simp: UpdateEffectiveSettings_def verbosity_max_value split: option.splits)
qed

lemma example_registry_children_longer: "children_longer example_registry"
  by (auto simp: children_longer_def example_registry_def FULMChannelState_default_def
      split: if_splits)

lemma example_registry_names_bounded: "names_bounded 15 example_registry"
  by (auto simp: names_bounded_def example_registry_def split: if_splits)


text \<open>C5 at the channel \<^verbatim>\<open>Gameplay.Combat\<close> under \<^verbatim>\<open>Gameplay\<close>: the severity and the
  rate limit come from the parent, the entry cap is the channel's own.\<close>

theorem C5_effective_settings_witness:
  "\<exists>reg' st'. RebuildEffectiveSettings 3 ''Gameplay.Combat'' example_registry = Some reg'
      \<and> TMap_Find (ChannelStates reg') ''Gameplay.Combat'' = Some st'
      \<and> bEffectiveEnabled st' = True
      \<and> verbosity_value (EffectiveMinVerbosity st') = 1
      \<and> EffectiveRateLimit st' = \<lparr>TokensPerSecond = 5, BurstCapacity = 5\<rparr>
      \<and> EffectiveMaxEntries st' = 250"
  using C5_effective_settings [OF example_registry_children_longer example_registry_names_bounded,
      of "''Gameplay.Combat''" "FULMChannelState_default\<lparr>ParentChannel := ''Gameplay''\<rparr>"
         "FULMChannelConfig_default\<lparr>RateLimit := \<lparr>TokensPerSecond = 0, BurstCapacity = 0\<rparr>,
                                       MaxLogEntries := 250\<rparr>" 3]
  by (simp add: example_registry_def TMap_Find_def FString_fold_def ToLower_def
      FULMChannelState_default_def FULMChannelConfig_default_def)

section \<open>Verification: the master-list gate of channel registration\<close>

text \<open>A subsystem right after start-up: the registry holds the channel \<^verbatim>\<open>Default\<close> its
  constructor registers; nothing is queued or stored.\<close>

definition registry_with_Default :: FULMChannelRegistry where
  "registry_with_Default =
     \<lparr>ChannelConfigs = [''default'' \<mapsto> FULMChannelConfig_default],
      ChannelStates = [''default'' \<mapsto> FULMChannelState_default],
      DefaultConfig = FULMChannelConfig_default\<rparr>"

definition subsystem_initial :: UULMSubsystem where
  "subsystem_initial =
     \<lparr>ChannelRegistry = Some registry_with_Default,
      LogMessageQueue = [],
      LogEntries = [],
      QueueDiagnostics = \<lparr>EnqueueCount = 0, DequeueCount = 0, DroppedCount = 0, ProcessedCount = 0\<rparr>,
      MemoryTracker = FULMMemoryTracker_new\<rparr>"

lemma FULMChannelRegistry_new_eq: "FULMChannelRegistry_new fuel = Some registry_with_Default"
  by (simp add: FULMChannelRegistry_new_def registry_with_Default_def
      FULMChannelRegistry_RegisterChannel.simps ParseChannelHierarchy_def UpdateChildChannels_def
      TMap_Find_def TMap_Emplace_def FString_fold_def ToLower_def UpdateEffectiveSettings_def
      FULMChannelState_default_def FULMChannelConfig_default_def Let_def)

lemma ToLower_dot: "ToLower c = CHR ''.'' \<longleftrightarrow> c = CHR ''.''"
  by (auto simp add: ToLower_def split: if_splits)

lemma ToLower_dot_eq: "ToLower (CHR ''.'') = CHR ''.''"
  by (simp add: ToLower_def)

lemma dot_in_fold: "CHR ''.'' \<in> set n \<Longrightarrow> CHR ''.'' \<in> set (FString_fold n)"
  unfolding FString_fold_def set_map using ToLower_dot_eq by (metis image_eqI)

definition master_names :: "string list" where
  "master_names = [''ULM'', ''Gameplay'', ''Network'', ''Performance'', ''Debug'', ''AI'',
         ''Physics'', ''Audio'', ''Animation'', ''UI'', ''Subsystem'', ''Custom'']"

lemma IsChannelInMasterList_iff:
  "IsChannelInMasterList n = list_ex (\<lambda>name. FString_fold n = FString_fold name) master_names"
  by (simp add: IsChannelInMasterList_def ULM_CHANNEL_LIST_def FString_eq_def master_names_def)

lemma master_names_no_dot: "name \<in> set master_names \<Longrightarrow> CHR ''.'' \<notin> set name"
  by (auto simp: master_names_def)

lemma dot_of_fold: "CHR ''.'' \<in> set (FString_fold n) \<Longrightarrow> CHR ''.'' \<in> set n"
  by (auto simp: FString_fold_def) (metis ToLower_dot)

lemma dotted_not_in_master_list:
  assumes "CHR ''.'' \<in> set n"
  shows "\<not> IsChannelInMasterList n"
proof
  assume "IsChannelInMasterList n"
  then obtain name where nm: "name \<in> set master_names" "FString_fold n = FString_fold name"
    unfolding IsChannelInMasterList_iff list_ex_iff by blast
  have "CHR ''.'' \<in> set (FString_fold n)" using assms by (rule dot_in_fold)
  then have "CHR ''.'' \<in> set name" using nm(2) by (simp add: dot_of_fold)
  with master_names_no_dot[OF nm(1)] show False by simp
qed

text \<open>
  Claim C10 (as amended). \<^verbatim>\<open>UULMSubsystem::RegisterChannel\<close> returns with the subsystem
  unchanged (channel registry and per-channel storage included) for every name that is
  none of the twelve master-list names, names being compared as the engine compares
  \<^verbatim>\<open>FString\<close>s, that is ignoring letter case; in particular for every name that contains a
  dot.
\<close>

theorem C10_register_channel_gate:
  "(\<not> list_ex (\<lambda>name. FString_fold ChannelName = FString_fold name)
        master_names
      \<longrightarrow> UULMSubsystem_RegisterChannel fuel ChannelName Config s = Some s)
   \<and> (CHR ''.'' \<in> set ChannelName
      \<longrightarrow> UULMSubsystem_RegisterChannel fuel ChannelName Config s = Some s)"
proof (intro conjI impI)
  assume "\<not> list_ex (\<lambda>name. FString_fold ChannelName = FString_fold name)
        master_names"
  then have "\<not> IsChannelInMasterList ChannelName"
    by (simp add: IsChannelInMasterList_iff)
  then show "UULMSubsystem_RegisterChannel fuel ChannelName Config s = Some s"
    by (simp add: UULMSubsystem_RegisterChannel_def)
next
  assume "CHR ''.'' \<in> set ChannelName"
  then have "\<not> IsChannelInMasterList ChannelName" by (rule dotted_not_in_master_list)
  then show "UULMSubsystem_RegisterChannel fuel ChannelName Config s = Some s"
    by (simp add: UULMSubsystem_RegisterChannel_def)
qed

text \<open>The dotted path \<^verbatim>\<open>A.B\<close> and the name \<^verbatim>\<open>Combat\<close> are refused.\<close>

theorem C10_register_channel_gate_witness:
  "UULMSubsystem_RegisterChannel 0 ''A.B'' FULMChannelConfig_default subsystem_initial
     = Some subsystem_initial
   \<and> UULMSubsystem_RegisterChannel 0 ''Combat'' FULMChannelConfig_default subsystem_initial
     = Some subsystem_initial"
  using C10_register_channel_gate [of "''A.B''" 0 FULMChannelConfig_default subsystem_initial]
    C10_register_channel_gate [of "''Combat''" 0 FULMChannelConfig_default subsystem_initial]
  by (simp add: FString_fold_def ToLower_def master_names_def)


text \<open>
  C10 fails as it is stated ("every other name"): the name \<^verbatim>\<open>gameplay\<close> is not one of the
  twelve strings of the list, yet it passes the gate, because \<^verbatim>\<open>operator==\<close> of \<^verbatim>\<open>FString\<close>
  ignores case; the call registers it and creates its storage.
\<close>

theorem C10_counterexample:
  "''gameplay'' \<noteq> ''Gameplay''
   \<and> map_option (\<lambda>s. map fst (LogEntries s))
        (UULMSubsystem_RegisterChannel 0 ''gameplay'' FULMChannelConfig_default subsystem_initial)
     = Some [''gameplay'']
   \<and> map_option (\<lambda>s. map fst (LogEntries s)) (Some subsystem_initial) = Some []"
  by (simp add: UULMSubsystem_RegisterChannel_def IsChannelInMasterList_def ULM_CHANNEL_LIST_def
      FString_eq_def FString_fold_def ToLower_def subsystem_initial_def registry_with_Default_def
      FULMChannelRegistry_RegisterChannel.simps ParseChannelHierarchy_def UpdateChildChannels_def
      TMap_Find_def TMap_Emplace_def TMapL_Find_def TMapL_Emplace_def Let_def
      FULMChannelState_default_def UpdateEffectiveSettings_def)

section \<open>Verification: non-blocking ingestion\<close>

text \<open>Whether the admission check at the head of \<^verbatim>\<open>StoreLogEntryInternal\<close> lets the call
  through: there is no registry, or \<^const>\<open>CanChannelLog\<close> answers true.\<close>

definition admitted :: "rat \<Rightarrow> string \<Rightarrow> EULMVerbosity \<Rightarrow> UULMSubsystem \<Rightarrow> bool" where
  "admitted CurrentTime ChannelName Verbosity s =
     (case ChannelRegistry s of
        None \<Rightarrow> True
      | Some reg \<Rightarrow> fst (CanChannelLog CurrentTime ChannelName Verbosity reg))"

text \<open>
  Claim C6 (as amended). \<^const>\<open>StoreLogEntryInternal\<close> is a total function of its
  arguments: the call always returns. For a call that passes the admission check: if the
  estimated pending count is at or above \<^const>\<open>MAX_QUEUE_SIZE\<close>, the entry is not enqueued,
  the drop counter goes up by exactly one and the enqueue counter is unchanged; below
  capacity, on a successful enqueue, the entry is appended to the queue, the enqueue
  counter goes up by exactly one and no drop is recorded. A call that fails the admission
  check leaves the queue and all queue counters unchanged.
\<close>

theorem C6_enqueue_or_drop:
  "(admitted t ch v s \<and> GetQueueSize s \<ge> MAX_QUEUE_SIZE \<longrightarrow>
      LogMessageQueue (StoreLogEntryInternal t now tid ok msg ch v s) = LogMessageQueue s
    \<and> DroppedCount (QueueDiagnostics (StoreLogEntryInternal t now tid ok msg ch v s))
        = DroppedCount (QueueDiagnostics s) + 1
    \<and> EnqueueCount (QueueDiagnostics (StoreLogEntryInternal t now tid ok msg ch v s))
        = EnqueueCount (QueueDiagnostics s))
   \<and> (admitted t ch v s \<and> GetQueueSize s < MAX_QUEUE_SIZE \<and> ok \<longrightarrow>
      LogMessageQueue (StoreLogEntryInternal t now tid ok msg ch v s)
        = LogMessageQueue s @ [\<lparr>EntryMessage = msg, EntryChannel = ch, EntryVerbosity = v,
                                 Timestamp = now, ThreadId = tid\<rparr>]
    \<and> EnqueueCount (QueueDiagnostics (StoreLogEntryInternal t now tid ok msg ch v s))
        = EnqueueCount (QueueDiagnostics s) + 1
    \<and> DroppedCount (QueueDiagnostics (StoreLogEntryInternal t now tid ok msg ch v s))
        = DroppedCount (QueueDiagnostics s))
   \<and> (\<not> admitted t ch v s \<longrightarrow>
      LogMessageQueue (StoreLogEntryInternal t now tid ok msg ch v s) = LogMessageQueue s
    \<and> QueueDiagnostics (StoreLogEntryInternal t now tid ok msg ch v s) = QueueDiagnostics s)"
  by (auto simp: StoreLogEntryInternal_def admitted_def GetQueueSize_def Let_def
      split: option.splits prod.splits)

text \<open>A subsystem whose counters give an estimated pending count of 10000.\<close>

definition subsystem_full_queue :: UULMSubsystem where
  "subsystem_full_queue =
     subsystem_initial\<lparr>QueueDiagnostics :=
       \<lparr>EnqueueCount = 10000, DequeueCount = 0, DroppedCount = 0, ProcessedCount = 0\<rparr>\<rparr>"

text \<open>A call on the channel \<^verbatim>\<open>Default\<close> with the queue at capacity, and one with the
  queue empty.\<close>

theorem C6_enqueue_or_drop_witness:
  "DroppedCount (QueueDiagnostics
      (StoreLogEntryInternal 100 0 0 True ''m'' ''Default'' Message subsystem_full_queue)) = 1
   \<and> LogMessageQueue
      (StoreLogEntryInternal 100 0 0 True ''m'' ''Default'' Message subsystem_full_queue) = []
   \<and> EnqueueCount (QueueDiagnostics
      (StoreLogEntryInternal 100 0 0 True ''m'' ''Default'' Message subsystem_initial)) = 1
   \<and> LogMessageQueue
      (StoreLogEntryInternal 100 0 0 True ''m'' ''Default'' Message subsystem_initial)
       = [\<lparr>EntryMessage = ''m'', EntryChannel = ''Default'', EntryVerbosity = Message,
           Timestamp = 0, ThreadId = 0\<rparr>]"
proof -
  have a1: "admitted 100 ''Default'' Message subsystem_full_queue"
    by (simp add: admitted_def subsystem_full_queue_def subsystem_initial_def
        registry_with_Default_def CanChannelLog_def TMap_Find_def FString_fold_def ToLower_def
        CanLog_def RefillTokens_def FULMChannelState_default_def FULMRateLimit_default_def
        verbosity_less_def Let_def)
  have a2: "admitted 100 ''Default'' Message subsystem_initial"
    by (simp add: admitted_def subsystem_initial_def
        registry_with_Default_def CanChannelLog_def TMap_Find_def FString_fold_def ToLower_def
        CanLog_def RefillTokens_def FULMChannelState_default_def FULMRateLimit_default_def
        verbosity_less_def Let_def)
  have q1: "GetQueueSize subsystem_full_queue \<ge> MAX_QUEUE_SIZE"
    by (simp add: GetQueueSize_def subsystem_full_queue_def MAX_QUEUE_SIZE_def)
  have q2: "GetQueueSize subsystem_initial < MAX_QUEUE_SIZE"
    by (simp add: GetQueueSize_def subsystem_initial_def MAX_QUEUE_SIZE_def)
  show ?thesis
    using C6_enqueue_or_drop [of 100 "''Default''" Message subsystem_full_queue 0 0 True "''m''"]
      C6_enqueue_or_drop [of 100 "''Default''" Message subsystem_initial 0 0 True "''m''"]
      a1 a2 q1 q2
    by (simp add: subsystem_full_queue_def subsystem_initial_def)
qed

text \<open>
  C6 fails as it is stated ("for every call"): with the pending count at capacity, a call
  on a channel the registry does not know is refused by the admission check before the
  capacity check, and the drop counter stays at zero.
\<close>

theorem C6_counterexample:
  "GetQueueSize subsystem_full_queue \<ge> MAX_QUEUE_SIZE
   \<and> DroppedCount (QueueDiagnostics subsystem_full_queue) = 0
   \<and> DroppedCount (QueueDiagnostics
        (StoreLogEntryInternal 100 0 0 True ''m'' ''Unknown'' Message subsystem_full_queue)) = 0"
  by (simp add: GetQueueSize_def subsystem_full_queue_def MAX_QUEUE_SIZE_def
      StoreLogEntryInternal_def subsystem_initial_def registry_with_Default_def CanChannelLog_def
      TMap_Find_def FString_fold_def ToLower_def Let_def)

section \<open>Verification: the last batch at shutdown\<close>

lemma TMap_Find_Emplace_same [simp]: "TMap_Find (TMap_Emplace m k v) k = Some v"
  by (simp add: TMap_Find_def TMap_Emplace_def)

lemma FULMChannelRegistry_RegisterChannel_returns:
  "\<exists>reg'. FULMChannelRegistry_RegisterChannel fuel ChannelName Config reg = Some reg'"
proof (induction fuel ChannelName Config reg rule: FULMChannelRegistry_RegisterChannel.induct)
  case (1 fuel ChannelName Config reg)
  show ?case
  proof (cases "ChannelName = []")
    case True
    then show ?thesis by (simp add: FULMChannelRegistry_RegisterChannel.simps)
  next
    case False
    have "\<exists>reg1. (if fst (ParseChannelHierarchy ChannelName) \<noteq> []
                 \<and> TMap_Find (ChannelConfigs reg) (fst (ParseChannelHierarchy ChannelName)) = None
              then FULMChannelRegistry_RegisterChannel fuel
                     (fst (ParseChannelHierarchy ChannelName)) (DefaultConfig reg) reg
              else Some reg) = Some reg1"
      using "1.IH" False by auto
    then obtain reg1 where r1: "(if fst (ParseChannelHierarchy ChannelName) \<noteq> []
                 \<and> TMap_Find (ChannelConfigs reg) (fst (ParseChannelHierarchy ChannelName)) = None
              then FULMChannelRegistry_RegisterChannel fuel
                     (fst (ParseChannelHierarchy ChannelName)) (DefaultConfig reg) reg
              else Some reg) = Some reg1" by blast
    show ?thesis
      apply (subst FULMChannelRegistry_RegisterChannel.simps)
      apply (simp only: False if_False r1 option.case)
      apply (auto simp: Let_def UpdateChildChannels_def FULMChannelState_default_def
          split: option.splits)
      done
  qed
qed

lemma TrimChannelForMemory_queue [simp]:
  "LogMessageQueue (TrimChannelForMemory sz ch n s) = LogMessageQueue s"
  by (simp add: TrimChannelForMemory_def Let_def split: option.splits)

lemma TrimChannelForMemory_registry [simp]:
  "ChannelRegistry (TrimChannelForMemory sz ch n s) = ChannelRegistry s"
  by (simp add: TrimChannelForMemory_def Let_def split: option.splits)

lemma TrimMemoryBudget_loop_queue [simp]:
  "LogMessageQueue (fst (TrimMemoryBudget_loop sz target cs tot s)) = LogMessageQueue s"
  by (induction sz target cs tot s rule: TrimMemoryBudget_loop.induct)
     (auto simp: Let_def split: option.splits)

lemma TrimMemoryBudget_queue [simp]:
  "LogMessageQueue (TrimMemoryBudget sz s) = LogMessageQueue s"
  by (auto simp: TrimMemoryBudget_def Let_def split: prod.splits)
     (metis TrimMemoryBudget_loop_queue fst_conv)

lemma StoreProcessedLogEntry_locked_queue:
  "\<exists>s'. StoreProcessedLogEntry_locked sz fuel Entry m s = Some s'
        \<and> LogMessageQueue s' = LogMessageQueue s"
proof -
  obtain reg' where reg': "\<And>reg. FULMChannelRegistry_RegisterChannel fuel (EntryChannel Entry)
        FULMChannelConfig_default reg = Some (reg' reg)"
    using FULMChannelRegistry_RegisterChannel_returns by metis
  show ?thesis
    unfolding StoreProcessedLogEntry_locked_def
    by (auto simp: Let_def reg' split: option.splits)
qed

lemma StoreProcessedLogEntry_queue:
  "\<exists>s'. StoreProcessedLogEntry sz fuel Entry s = Some s'
        \<and> LogMessageQueue s' = LogMessageQueue s"
  using StoreProcessedLogEntry_locked_queue[of sz fuel Entry "CalculateLogEntrySize sz Entry" s]
    StoreProcessedLogEntry_locked_queue[of sz fuel Entry "CalculateLogEntrySize sz Entry" "TrimMemoryBudget sz s"]
  by (auto simp: StoreProcessedLogEntry_def Let_def)

lemma ProcessBatch_loop_queue:
  "\<exists>s'. ProcessBatch_loop sz fuel Processed s = Some s'
        \<and> LogMessageQueue s' = drop (BATCH_SIZE - Processed) (LogMessageQueue s)"
proof (induction sz fuel Processed s rule: ProcessBatch_loop.induct)
  case (1 sz fuel Processed s)
  show ?case
  proof (cases "Processed < BATCH_SIZE")
    case False
    then show ?thesis by (simp add: ProcessBatch_loop.simps)
  next
    case True
    note lt = this
    show ?thesis
    proof (cases "LogMessageQueue s")
      case Nil
      with lt show ?thesis by (simp add: ProcessBatch_loop.simps)
    next
      case (Cons Entry rest)
      obtain s1 where s1: "ProcessLogEntry sz fuel Entry (s\<lparr>LogMessageQueue := rest\<rparr>) = Some s1"
        and q1: "LogMessageQueue s1 = rest"
        using StoreProcessedLogEntry_queue[of sz fuel _ "s\<lparr>LogMessageQueue := rest\<rparr>"]
        unfolding ProcessLogEntry_def by fastforce
      from "1.IH"[OF lt Cons s1] obtain s' where
        s': "ProcessBatch_loop sz fuel (Processed + 1) (UpdateProcessingDiagnostics s1) = Some s'"
        and q': "LogMessageQueue s' =
            drop (BATCH_SIZE - (Processed + 1)) (LogMessageQueue (UpdateProcessingDiagnostics s1))"
        by blast
      have "BATCH_SIZE - Processed = Suc (BATCH_SIZE - (Processed + 1))" using lt by simp
      then have "drop (BATCH_SIZE - Processed) (LogMessageQueue s)
                 = drop (BATCH_SIZE - (Processed + 1)) rest"
        using Cons by simp
      moreover have "LogMessageQueue (UpdateProcessingDiagnostics s1) = rest"
        using q1 by (simp add: UpdateProcessingDiagnostics_def)
      ultimately show ?thesis
        using lt Cons s1 s' q' by (subst ProcessBatch_loop.simps) simp
    qed
  qed
qed

text \<open>
  Claim C2 at a failing input: a queue that holds 65 copies of an entry when the stop
  flag is observed. The thread's last \<^verbatim>\<open>ProcessBatch\<close> returns with one entry still in
  the queue, which is never processed.
\<close>

theorem C2_final_batch_leaves_entries:
  "\<exists>s'. Run_after_stop sz fuel (s\<lparr>LogMessageQueue := replicate 65 e\<rparr>) = Some s'
        \<and> LogMessageQueue s' = [e]"
proof -
  from ProcessBatch_loop_queue[of sz fuel 0 "s\<lparr>LogMessageQueue := replicate 65 e\<rparr>"]
  obtain s' where "ProcessBatch_loop sz fuel 0 (s\<lparr>LogMessageQueue := replicate 65 e\<rparr>) = Some s'"
    and "LogMessageQueue s' = drop BATCH_SIZE (replicate 65 e)" by auto
  then show ?thesis
    by (simp add: Run_after_stop_def ProcessBatch_def BATCH_SIZE_def)
qed

section \<open>Verification: the safety margin of the eviction pass\<close>

lemma UpdateLargestChannel_counters [simp]:
  "TrimmingEventsCounter (UpdateLargestChannel t) = TrimmingEventsCounter t"
  "MemoryBudget (UpdateLargestChannel t) = MemoryBudget t"
  "TotalMemoryUsedCounter (UpdateLargestChannel t) = TotalMemoryUsedCounter t"
  "ChannelMemoryUsage (UpdateLargestChannel t) = ChannelMemoryUsage t"
  by (simp_all add: UpdateLargestChannel_def split: prod.splits)

lemma RemoveMemoryUsage_counters [simp]:
  "TrimmingEventsCounter (RemoveMemoryUsage ch m t) = TrimmingEventsCounter t"
  "MemoryBudget (RemoveMemoryUsage ch m t) = MemoryBudget t"
  by (simp_all add: RemoveMemoryUsage_def)

lemma TrimChannelForMemory_counters [simp]:
  "TrimmingEventsCounter (MemoryTracker (TrimChannelForMemory sz ch n s))
     = TrimmingEventsCounter (MemoryTracker s)"
  "MemoryBudget (MemoryTracker (TrimChannelForMemory sz ch n s)) = MemoryBudget (MemoryTracker s)"
  by (simp_all add: TrimChannelForMemory_def Let_def split: option.splits)


text \<open>The test at the head of \<^verbatim>\<open>TrimMemoryBudget\<close>: the tracked usage is at most the
  budget less two percent of it (the product truncated to whole bytes).\<close>

definition within_safety_margin :: "UULMSubsystem \<Rightarrow> bool" where
  "within_safety_margin s =
     (GetTotalMemoryUsage (MemoryTracker s)
        \<le> MemoryBudget (MemoryTracker s)
            - nat \<lfloor>of_nat (MemoryBudget (MemoryTracker s)) * (2 / 100 :: rat)\<rfloor>)"



text \<open>The sizes of a 64-bit build, for the examples.\<close>

definition sizes_example :: type_sizes where
  "sizes_example = \<lparr>sizeof_FULMLogEntry = 56, sizeof_FString = 16, sizeof_TCHAR = 2\<rparr>"



section \<open>Verification: active files of the tracker\<close>

text \<open>The trackers that the public operations of \<^verbatim>\<open>FULMLogFileTracker\<close> and a rotation
  can produce from the empty tracker.\<close>

inductive tracker_reachable :: "FULMLogFileTracker \<Rightarrow> bool" where
  reach_new: "tracker_reachable FULMLogFileTracker_new"
| reach_RegisterFile:
    "tracker_reachable tr \<Longrightarrow> tracker_reachable (RegisterFile Channel Path Date Index tr)"
| reach_UpdateFileSize:
    "tracker_reachable tr \<Longrightarrow> tracker_reachable (UpdateFileSize Channel NewSize tr)"
| reach_SetFileActive:
    "tracker_reachable tr \<Longrightarrow> tracker_reachable (SetFileActive Channel Path tr)"
| reach_RemoveFile:
    "tracker_reachable tr \<Longrightarrow> tracker_reachable (RemoveFile Path tr)"
| reach_RotateFile:
    "tracker_reachable (FileTracker rot) \<Longrightarrow>
     tracker_reachable (FileTracker (fst (RotateFile NowName NowRegister Channel Path rot)))"

definition active_count :: "FULMLogFileInfo list \<Rightarrow> nat" where
  "active_count Files = length (filter bIsActive Files)"

definition at_most_one_active :: "FULMLogFileTracker \<Rightarrow> bool" where
  "at_most_one_active tr =
     (\<forall>k Files. map_of (ChannelFiles tr) k = Some Files \<longrightarrow> active_count Files \<le> 1)"

lemma active_count_update_first_same:
  "(\<And>x. bIsActive (f x) = bIsActive x) \<Longrightarrow>
   active_count (update_first P f xs) = active_count xs"
  by (induction xs) (auto simp: active_count_def)

lemma active_count_deactivated [simp]:
  "active_count (map (\<lambda>File. File\<lparr>bIsActive := False\<rparr>) xs) = 0"
  by (induction xs) (auto simp: active_count_def)

lemma active_count_activate_first:
  "active_count xs = 0 \<Longrightarrow>
   active_count (update_first P (\<lambda>File. File\<lparr>bIsActive := True\<rparr>) xs)
     = (if list_ex P xs then 1 else 0)"
  by (induction xs) (auto simp: active_count_def split: if_splits)

lemma active_count_Nil [simp]: "active_count [] = 0"
  by (simp add: active_count_def)

lemma active_count_filter: "active_count (filter Q xs) \<le> active_count xs"
  by (induction xs) (auto simp: active_count_def)

lemma active_count_append_inactive:
  "\<not> bIsActive x \<Longrightarrow> active_count (xs @ [x]) = active_count xs"
  by (simp add: active_count_def)

lemma map_of_TMapL_Emplace:
  "map_of (TMapL_Emplace al k v) k' = (if k' = FString_fold k then Some v else map_of al k')"
  by (simp add: TMapL_Emplace_def update_conv')

lemma RegisterFile_inv: "at_most_one_active tr \<Longrightarrow> at_most_one_active (RegisterFile c p d i tr)"
  unfolding at_most_one_active_def RegisterFile_def Let_def
  by (auto simp: map_of_TMapL_Emplace TMapL_Find_def active_count_update_first_same
      active_count_append_inactive FULMLogFileInfo_make_def
      split: option.splits if_splits)

lemma UpdateFileSize_inv: "at_most_one_active tr \<Longrightarrow> at_most_one_active (UpdateFileSize c n tr)"
  unfolding at_most_one_active_def UpdateFileSize_def
  by (auto simp: map_of_TMapL_Emplace TMapL_Find_def active_count_update_first_same
      split: option.splits if_splits)

lemma SetFileActive_inv: "at_most_one_active tr \<Longrightarrow> at_most_one_active (SetFileActive c p tr)"
  unfolding at_most_one_active_def SetFileActive_def
  by (auto simp: map_of_TMapL_Emplace TMapL_Find_def active_count_activate_first
      split: option.splits if_splits)

lemma RemoveFile_inv: "at_most_one_active tr \<Longrightarrow> at_most_one_active (RemoveFile p tr)"
  unfolding at_most_one_active_def RemoveFile_def
  by (auto simp: map_of_map) (meson active_count_filter le_trans)

lemma RotateFile_inv:
  "at_most_one_active (FileTracker rot) \<Longrightarrow>
   at_most_one_active (FileTracker (fst (RotateFile n1 n2 c p rot)))"
  by (auto simp: RotateFile_def Let_def SetFileActive_inv RegisterFile_inv split: option.splits)

lemma reachable_at_most_one_active: "tracker_reachable tr \<Longrightarrow> at_most_one_active tr"
proof (induction rule: tracker_reachable.induct)
  case reach_new
  show ?case by (simp add: at_most_one_active_def FULMLogFileTracker_new_def)
qed (simp_all add: RegisterFile_inv UpdateFileSize_inv SetFileActive_inv RemoveFile_inv
      RotateFile_inv)

text \<open>
  Claim C9 (as amended). At every point reachable through the tracker's operations
  (registration, size update, activation, removal, rotation), every channel the tracker
  knows has at most one file marked active; and right after \<^const>\<open>SetFileActive\<close> with a
  path that is registered for the channel, it has exactly one.
\<close>

theorem C9_at_most_one_active_file:
  assumes "tracker_reachable tr" and "TMapL_Find (ChannelFiles tr) Channel = Some Files"
  shows "length (filter bIsActive Files) \<le> 1
       \<and> (list_ex (\<lambda>File. FString_eq (FilePath File) Path) Files \<longrightarrow>
            (\<exists>Files'. TMapL_Find (ChannelFiles (SetFileActive Channel Path tr)) Channel = Some Files'
               \<and> length (filter bIsActive Files') = 1))"
proof -
  have "at_most_one_active tr" using assms(1) by (rule reachable_at_most_one_active)
  then have one: "length (filter bIsActive Files) \<le> 1"
    using assms(2) by (auto simp: at_most_one_active_def TMapL_Find_def active_count_def)
  have ex: "list_ex (\<lambda>File. FString_eq (FilePath File) Path)
              (map (\<lambda>File. File\<lparr>bIsActive := False\<rparr>) Files)
            = list_ex (\<lambda>File. FString_eq (FilePath File) Path) Files"
    by (induction Files) auto
  have "list_ex (\<lambda>File. FString_eq (FilePath File) Path) Files \<Longrightarrow>
      active_count (update_first (\<lambda>File. FString_eq (FilePath File) Path)
                   (\<lambda>File. File\<lparr>bIsActive := True\<rparr>)
                   (map (\<lambda>File. File\<lparr>bIsActive := False\<rparr>) Files)) = 1"
    using active_count_activate_first[of "map (\<lambda>File. File\<lparr>bIsActive := False\<rparr>) Files"
        "\<lambda>File. FString_eq (FilePath File) Path"] ex by simp
  then show ?thesis
    using one assms(2)
    by (auto simp: SetFileActive_def TMapL_Find_def map_of_TMapL_Emplace active_count_def)
qed

text \<open>A date and a tracker with one registered file, for the examples.\<close>

definition date_example :: FDateTime where
  "date_example = \<lparr>Year = 2025, Month = 1, Day = 15, TimeOfDay = 0\<rparr>"

definition tracker_one_file :: FULMLogFileTracker where
  "tracker_one_file =
     RegisterFile ''Gameplay'' ''Logs/ULM_Gameplay_20250115_001.json'' date_example 1
       FULMLogFileTracker_new"

theorem C9_at_most_one_active_file_witness:
  "\<exists>Files'. TMapL_Find (ChannelFiles
        (SetFileActive ''Gameplay'' ''Logs/ULM_Gameplay_20250115_001.json'' tracker_one_file))
        ''Gameplay'' = Some Files'
     \<and> length (filter bIsActive Files') = 1"
proof -
  have r: "tracker_reachable tracker_one_file"
    unfolding tracker_one_file_def by (intro reach_RegisterFile reach_new)
  have f: "TMapL_Find (ChannelFiles tracker_one_file) ''Gameplay''
      = Some [FULMLogFileInfo_make ''Logs/ULM_Gameplay_20250115_001.json'' ''Gameplay'' date_example 1]"
    by (simp add: tracker_one_file_def RegisterFile_def FULMLogFileTracker_new_def TMapL_Find_def
        TMapL_Emplace_def FString_fold_def ToLower_def Let_def)
  show ?thesis
    using C9_at_most_one_active_file [OF r f, of "''Logs/ULM_Gameplay_20250115_001.json''"]
    by (simp add: FString_eq_def FULMLogFileInfo_make_def)
qed

text \<open>
  C9 fails as it is stated ("exactly one"): registering the first file of a channel in
  the empty tracker leaves the channel known with no active file, since
  \<^verbatim>\<open>RegisterFile\<close> stores the file inactive.
\<close>

theorem C9_counterexample:
  "tracker_reachable tracker_one_file
   \<and> map_option (\<lambda>Files. (length Files, length (filter bIsActive Files)))
        (TMapL_Find (ChannelFiles tracker_one_file) ''Gameplay'') = Some (1, 0)"
proof -
  have r: "tracker_reachable tracker_one_file"
    unfolding tracker_one_file_def by (intro reach_RegisterFile reach_new)
  have f: "TMapL_Find (ChannelFiles tracker_one_file) ''Gameplay''
      = Some [FULMLogFileInfo_make ''Logs/ULM_Gameplay_20250115_001.json'' ''Gameplay'' date_example 1]"
    by (simp add: tracker_one_file_def RegisterFile_def FULMLogFileTracker_new_def TMapL_Find_def
        TMapL_Emplace_def FString_fold_def ToLower_def Let_def)
  show ?thesis using r f by (simp add: FULMLogFileInfo_make_def)
qed

section \<open>Verification: file names and rotation\<close>

subsection \<open>Decimal digits\<close>

definition is_digit :: "char \<Rightarrow> bool" where
  "is_digit c = (c \<in> set ''0123456789'')"

lemma digit_char_below_ten:
  assumes "m < 10"
  shows "''0123456789'' ! m \<in> set ''0123456789''
                \<and> digit_value (''0123456789'' ! m) = Some m"
proof -
  from assms have "m = 0 \<or> m = 1 \<or> m = 2 \<or> m = 3 \<or> m = 4 \<or> m = 5 \<or> m = 6 \<or> m = 7
    \<or> m = 8 \<or> m = 9"
    by arith
  then show ?thesis
    by (elim disjE) (simp_all add: digit_value_def)
qed

lemma digit_char_cases:
  "digit_char d \<in> set ''0123456789'' \<and> digit_value (digit_char d) = Some (d mod 10)"
  unfolding digit_char_def by (rule digit_char_below_ten) simp

lemma is_digit_digit_char [simp]: "is_digit (digit_char d)"
  using digit_char_cases[of d] by (simp add: is_digit_def)

lemma digit_value_digit_char [simp]: "digit_value (digit_char d) = Some (d mod 10)"
  using digit_char_cases[of d] by simp


lemma decimal_nonempty [simp]: "decimal n \<noteq> []"
  by (subst decimal.simps) simp


lemma is_digit_zero [simp]: "is_digit (CHR ''0'')"
  by (simp add: is_digit_def)








subsection \<open>Generated file names parse back\<close>



lemma is_digit_not_special:
  "is_digit c \<Longrightarrow> c \<noteq> CHR ''_'' \<and> c \<noteq> CHR ''.'' \<and> \<not> is_path_separator c"
  by (auto simp: is_digit_def is_path_separator_def)


lemma digits_no_dot: "\<forall>c \<in> set str. is_digit c \<Longrightarrow> CHR ''.'' \<notin> set str"
  using is_digit_not_special by blast
















subsection \<open>The next free index\<close>

definition index_step :: "(FULMLogFileInfo \<Rightarrow> bool) \<Rightarrow> FULMLogFileInfo \<Rightarrow> int \<Rightarrow> int" where
  "index_step P File Next = (if P File \<and> FileIndex File \<ge> Next then FileIndex File + 1 else Next)"

lemma index_step_ge: "a \<le> index_step P x a"
  by (simp add: index_step_def)

lemma fold_index_step_ge: "a \<le> fold (index_step P) fs a"
proof (induction fs arbitrary: a)
  case Nil
  show ?case by simp
next
  case (Cons x xs)
  have "a \<le> index_step P x a" by (rule index_step_ge)
  also have "\<dots> \<le> fold (index_step P) xs (index_step P x a)" by (rule Cons.IH)
  finally show ?case by simp
qed



lemma NextIndex_alt:
  "NextIndex Today Files
     = fold (index_step (\<lambda>f. FString_eq (DateString (CreationDate f)) Today)) Files 1"
  by (simp add: NextIndex_def index_step_def[abs_def])

lemma NextIndex_positive: "1 \<le> NextIndex Today Files"
  unfolding NextIndex_alt by (rule fold_index_step_ge)


subsection \<open>Registering and activating the new file\<close>



















section \<open>Verification: the per-channel entry cap\<close>



definition entries_size :: "type_sizes \<Rightarrow> FULMLogEntry list \<Rightarrow> nat" where
  "entries_size sz Entries = sum_list (map (CalculateLogEntrySize sz) Entries)"







lemma AddMemoryUsage_total [simp]:
  "TotalMemoryUsedCounter (AddMemoryUsage ch m t) = TotalMemoryUsedCounter t + of_nat m"
  "MemoryBudget (AddMemoryUsage ch m t) = MemoryBudget t"
  by (simp_all add: AddMemoryUsage_def)

lemma RemoveMemoryUsage_total [simp]:
  "TotalMemoryUsedCounter (RemoveMemoryUsage ch m t) = TotalMemoryUsedCounter t - of_nat m"
  by (simp add: RemoveMemoryUsage_def)








text \<open>The start-up subsystem after the channel \<^verbatim>\<open>Gameplay\<close> is registered with a cap of
  two entries, and three entries for that channel.\<close>

definition registry_gameplay :: FULMChannelRegistry where
  "registry_gameplay =
     \<lparr>ChannelConfigs =
        [''default'' \<mapsto> FULMChannelConfig_default,
         ''gameplay'' \<mapsto> FULMChannelConfig_default\<lparr>MaxLogEntries := 2\<rparr>],
      ChannelStates =
        [''default'' \<mapsto> FULMChannelState_default,
         ''gameplay'' \<mapsto> FULMChannelState_default\<lparr>EffectiveMaxEntries := 2\<rparr>],
      DefaultConfig = FULMChannelConfig_default\<rparr>"

definition subsystem_gameplay :: UULMSubsystem where
  "subsystem_gameplay =
     subsystem_initial\<lparr>ChannelRegistry := Some registry_gameplay, LogEntries := [(''gameplay'', [])]\<rparr>"

definition entry_example :: "string \<Rightarrow> int \<Rightarrow> FULMLogEntry" where
  "entry_example msg t =
     \<lparr>EntryMessage = msg, EntryChannel = ''Gameplay'', EntryVerbosity = Message,
      Timestamp = t, ThreadId = 0\<rparr>"

lemma subsystem_gameplay_registered:
  "UULMSubsystem_RegisterChannel 0 ''Gameplay'' (FULMChannelConfig_default\<lparr>MaxLogEntries := 2\<rparr>)
     subsystem_initial = Some subsystem_gameplay"
  by (simp add: UULMSubsystem_RegisterChannel_def IsChannelInMasterList_def ULM_CHANNEL_LIST_def
      FString_eq_def FString_fold_def ToLower_def subsystem_initial_def registry_with_Default_def
      FULMChannelRegistry_RegisterChannel.simps ParseChannelHierarchy_def UpdateChildChannels_def
      TMap_Find_def TMap_Emplace_def TMapL_Find_def TMapL_Emplace_def Let_def
      FULMChannelState_default_def FULMChannelConfig_default_def UpdateEffectiveSettings_def
      subsystem_gameplay_def registry_gameplay_def fun_upd_twist)



section \<open>Verification: the eviction pass\<close>









text \<open>A store over its budget: one channel whose three oldest entries are small and
  whose newest entry is large (with the sizes of \<^const>\<open>sizes_example\<close>: 106 bytes each
  and 998 bytes), 1316 bytes under a budget of 1000; and one channel of eight entries of
  200 bytes under a budget of 1300.\<close>

definition store_mixed :: UULMSubsystem where
  "store_mixed =
     subsystem_initial
       \<lparr>LogEntries :=
          [(''gameplay'',
            [entry_example ''a'' 1, entry_example ''a'' 2, entry_example ''a'' 3,
             entry_example (replicate 447 (CHR ''x'')) 4])],
        MemoryTracker :=
          FULMMemoryTracker_new
            \<lparr>TotalMemoryUsedCounter := 1316, TotalEntriesCounter := 4, MemoryBudget := 1000,
             ChannelMemoryUsage := [(''gameplay'', 1316)],
             LargestChannelName := ''gameplay'', LargestChannelUsage := 1316\<rparr>\<rparr>"




lemma store_mixed_target:
  "nat \<lfloor>of_nat (GetTotalMemoryUsage (MemoryTracker store_mixed))
         - of_nat (MemoryBudget (MemoryTracker store_mixed))
           * TargetPercent (GetTotalMemoryUsage (MemoryTracker store_mixed))
               (MemoryBudget (MemoryTracker store_mixed))\<rfloor> = 816"
  by (simp add: store_mixed_def GetTotalMemoryUsage_def TargetPercent_def)

lemma store_mixed_margin: "\<not> within_safety_margin store_mixed"
  by (simp add: within_safety_margin_def store_mixed_def GetTotalMemoryUsage_def)












lemma store_examples_consistent:
  "entries_size sizes_example
     [entry_example ''a'' 1, entry_example ''a'' 2, entry_example ''a'' 3,
      entry_example (replicate 447 (CHR ''x'')) 4] = 1316"
  "entries_size sizes_example (map (entry_example (replicate 48 (CHR ''x''))) [1, 2, 3, 4, 5, 6, 7, 8])
     = 1600"
  by (simp_all add: entries_size_def CalculateLogEntrySize_def sizes_example_def entry_example_def)



end
